theory Spec2Isabelle
  imports Main
begin

section \<open>The kiosk command-line client (dapps/kiosk-cli/index.js)\<close>

text \<open>
  The client reads ledger state through a JSON-RPC provider, assembles one transaction
  block per command and hands it to the signer. Every command is modelled as a function
  of a ledger snapshot that returns the trace of the calls it issued, in order, together
  with either the error it threw or the transaction block it passed to \<open>sendTx\<close>.
\<close>

subsection \<open>Ledger data\<close>

text \<open>
  The owner record of an object, as the ledger returns it: an object with the key
  \<open>AddressOwner\<close>, \<open>ObjectOwner\<close> or \<open>Shared\<close>, or the bare string \<open>Immutable\<close> for
  a frozen object. The source tells the shapes apart with \<open>'key' in owner\<close>, which
  throws a \<open>TypeError\<close> when \<open>owner\<close> is a string.
\<close>

datatype owner = AddressOwner string | ObjectOwner string | Shared | Immutable

text \<open>
  The \<open>data\<close> part of an object response. One record carries every field some command
  reads: the object reference (\<open>objectId\<close>, \<open>version\<close>, \<open>digest\<close>), \<open>type\<close>, \<open>owner\<close>
  and, for a listing, \<open>content.fields.value\<close> (the price).
\<close>

record object_data =
  objectId :: string
  version :: string
  digest :: string
  otype :: string
  owner :: owner
  content_value :: string

text \<open>An object response: the source tests \<open>'error' in r || !r.data\<close>.\<close>

record object_response =
  error :: "string option"
  data :: "object_data option"

record kiosk_owner_cap =
  cap_objectId :: string
  cap_kioskId :: string
  cap_version :: string
  cap_digest :: string

record transfer_policy =
  policy_id :: string
  rules :: "string list"

subsection \<open>Transaction blocks\<close>

text \<open>
  Arguments of a command of a transaction block: \<open>txb.object(id)\<close>,
  \<open>txb.objectRef({objectId, version, digest})\<close>, \<open>txb.pure(a, 'address')\<close>, the result
  of the n-th command of the block, and a bare id string handed to an SDK builder.
\<close>

datatype argument =
    TxObject string
  | TxObjectRef string string string
  | TxPure string
  | TxResult nat
  | RawId string

text \<open>
  The commands a handler appends to its block. The kiosk builders of the SDK
  (\<open>createKioskAndShare\<close>, \<open>place\<close>, \<open>lock\<close>, \<open>take\<close>, \<open>list\<close>, \<open>delist\<close>,
  \<open>withdrawFromKiosk\<close>) each stand for the call they append; \<open>MoveCall\<close> is any other
  call, as rule resolution may append.
\<close>

datatype operation =
    KioskCreateAndShare
  | KioskPlace string argument argument argument
  | KioskLock string argument argument argument argument
  | KioskTake string argument argument string
  | KioskList string argument argument string string
  | KioskDelist string argument argument string
  | KioskWithdraw argument argument
  | TransferObjects "argument list" argument
  | MoveCall string "argument list"

datatype environment = Mainnet | Testnet

text \<open>
  The arguments \<open>purchaseItem\<close> passes to \<open>purchaseAndResolvePolicies\<close>. The policy
  is \<open>policies[0]\<close>, which is \<open>undefined\<close> on an empty array.
\<close>

record resolve_request =
  req_type :: string
  req_price :: string
  req_kiosk :: argument
  req_itemId :: string
  req_policy :: "transfer_policy option"
  req_env :: environment
  req_ownedKiosk :: string
  req_ownedKioskCap :: string

subsection \<open>The ledger snapshot and the imported functions\<close>

text \<open>
  What a command run depends on. The signer's address; the two validity predicates of the
  SDK; the answers of the provider and of the kiosk SDK's queries, \<open>None\<close> when the call
  rejects; and \<open>purchaseAndResolvePolicies\<close>, which is imported from the kiosk SDK and
  taken as a parameter: given the request it yields the commands it appends to the
  block, the purchased item and \<open>canTransfer\<close>, or \<open>None\<close> when it throws.
\<close>

record ledger =
  signer_address :: string
  isValidSuiAddress :: "string \<Rightarrow> bool"
  isValidSuiObjectId :: "string \<Rightarrow> bool"
  rpc_getObject :: "string \<Rightarrow> object_response option"
  rpc_getDynamicFieldObject :: "string \<Rightarrow> string \<Rightarrow> object_response option"
  rpc_queryTransferPolicy :: "string \<Rightarrow> transfer_policy list option"
  rpc_getOwnedKiosks :: "string \<Rightarrow> kiosk_owner_cap list option"
  purchaseAndResolvePolicies :: "resolve_request \<Rightarrow> (operation list \<times> argument \<times> bool) option"

subsection \<open>Errors and traces\<close>

text \<open>
  One constructor per \<open>throw\<close> of the source, carrying the identifiers its message
  interpolates. The messages written with a \<open>"%s"\<close> placeholder pass the value as the
  second argument of \<open>Error\<close>, which does not format it, so they carry nothing.
  \<open>RpcFailure\<close> is a rejected provider call, \<open>RuleResolutionFailure\<close> an exception
  of \<open>purchaseAndResolvePolicies\<close>, \<open>TypeError\<close> the exception of the \<open>in\<close> operator
  on the owner \<open>Immutable\<close>.
\<close>

datatype error =
    InvalidTargetAddress
  | InvalidKioskId
  | InvalidItemId
  | InvalidReceiverAddress
  | InvalidAddress string
  | NoKioskFound string
  | NoKioskForSender
  | KioskAlreadyExists string
  | ItemNotFound string
  | ItemNotOwnedBy string string
  | ItemNotOwnedByObject string
  | DynamicFieldKeyNotFound string
  | DynamicFieldKeyNotOwnedByObject string
  | ItemNotListed string string
  | KioskNotFound string
  | NoTransferPolicy string
  | ItemHasNoTransferPolicy string string
  | RpcFailure
  | RuleResolutionFailure
  | TypeError

text \<open>
  The calls of a run, in the order they are issued. The first four are round-trips to
  the ledger; \<open>NewTransactionBlock\<close> is the local construction of a block. Asking the
  signer for its address leaves no event: the address is a constant of the run.
\<close>

datatype event =
    GetOwnedKiosks string
  | GetObject string
  | GetDynamicFieldObject string string
  | QueryTransferPolicy string
  | NewTransactionBlock

type_synonym 'a io = "event list \<times> (error + 'a)"

definition return_io :: "'a \<Rightarrow> 'a io" where
  "return_io x = ([], Inr x)"

definition throw_io :: "error \<Rightarrow> 'a io" where
  "throw_io e = ([], Inl e)"

text \<open>Sequencing: the second step runs only when the first did not throw.\<close>

definition bind_io :: "'a io \<Rightarrow> ('a \<Rightarrow> 'b io) \<Rightarrow> 'b io" where
  "bind_io m f =
     (case m of
        (t, Inl e) \<Rightarrow> (t, Inl e)
      | (t, Inr x) \<Rightarrow> (case f x of (t', r) \<Rightarrow> (t @ t', r)))"

text \<open>\<open>p.catch(() => null)\<close>: any exception becomes \<open>null\<close>.\<close>

definition catch_null :: "'a io \<Rightarrow> 'a option io" where
  "catch_null m =
     (case m of
        (t, Inl e) \<Rightarrow> (t, Inr None)
      | (t, Inr x) \<Rightarrow> (t, Inr (Some x)))"

text \<open>An awaited call: it is issued, and throws when the promise rejects.\<close>

definition await :: "event \<Rightarrow> 'a option \<Rightarrow> 'a io" where
  "await ev answer =
     (case answer of
        None \<Rightarrow> ([ev], Inl RpcFailure)
      | Some x \<Rightarrow> ([ev], Inr x))"

definition getObject :: "ledger \<Rightarrow> string \<Rightarrow> object_response io" where
  "getObject l i = await (GetObject i) (rpc_getObject l i)"

definition getOwnedKiosks :: "ledger \<Rightarrow> string \<Rightarrow> kiosk_owner_cap list io" where
  "getOwnedKiosks l a = await (GetOwnedKiosks a) (rpc_getOwnedKiosks l a)"

definition queryTransferPolicy :: "ledger \<Rightarrow> string \<Rightarrow> transfer_policy list io" where
  "queryTransferPolicy l ty = await (QueryTransferPolicy ty) (rpc_queryTransferPolicy l ty)"

definition newTransactionBlock :: "unit io" where
  "newTransactionBlock = ([NewTransactionBlock], Inr ())"

text \<open>JavaScript truthiness of an optional string, and \<open>a || b\<close>.\<close>

fun truthy :: "string option \<Rightarrow> bool" where
  "truthy None = False"
| "truthy (Some s) = (s \<noteq> [])"

fun or_else :: "string option \<Rightarrow> string \<Rightarrow> string" where
  "or_else None d = d"
| "or_else (Some s) d = (if s \<noteq> [] then s else d)"

text \<open>\<open>'error' in r || !r.data\<close>: the continuation gets the data when the test is false.\<close>

definition found :: "object_response \<Rightarrow> object_data option" where
  "found r = (case error r of Some e \<Rightarrow> None | None \<Rightarrow> data r)"

definition capRef :: "kiosk_owner_cap \<Rightarrow> argument" where
  "capRef c = TxObjectRef (cap_objectId c) (cap_version c) (cap_digest c)"

definition dataRef :: "object_data \<Rightarrow> argument" where
  "dataRef d = TxObjectRef (objectId d) (version d) (digest d)"

subsection \<open>findKioskCap\<close>

text \<open>Lines 742 to 756.\<close>

definition findKioskCap :: "ledger \<Rightarrow> string option \<Rightarrow> kiosk_owner_cap io" where
  "findKioskCap l address =
     (let sender = or_else address (signer_address l) in
      if \<not> isValidSuiAddress l sender then throw_io (InvalidAddress sender)
      else bind_io (getOwnedKiosks l sender) (\<lambda>kioskOwnerCaps.
        case kioskOwnerCaps of
          [] \<Rightarrow> throw_io (NoKioskFound sender)
        | c # cs \<Rightarrow> return_io c))"

subsection \<open>Command \<open>new\<close>\<close>

text \<open>Lines 185 to 198.\<close>

definition newKiosk :: "ledger \<Rightarrow> operation list io" where
  "newKiosk l =
     (let sender = signer_address l in
      bind_io (catch_null (findKioskCap l None)) (\<lambda>kioskCap.
        case kioskCap of
          Some c \<Rightarrow> throw_io (KioskAlreadyExists sender)
        | None \<Rightarrow>
            bind_io newTransactionBlock (\<lambda>_.
              return_io [KioskCreateAndShare, TransferObjects [TxResult 0] (TxPure sender)])))"

subsection \<open>Commands \<open>place\<close> and \<open>lock\<close>\<close>

text \<open>
  Lines 318 to 351. The test \<open>'AddressOwner' in item.data.owner\<close> of line 339 throws on
  the owner \<open>Immutable\<close>; so does the one of line 378 in \<open>lockItem\<close>.
\<close>

definition placeItem :: "ledger \<Rightarrow> string \<Rightarrow> operation list io" where
  "placeItem l itemId =
     bind_io (catch_null (findKioskCap l None)) (\<lambda>kioskCap.
       let ownr = signer_address l in
       case kioskCap of
         None \<Rightarrow> throw_io NoKioskForSender
       | Some cap \<Rightarrow>
           if \<not> isValidSuiObjectId l itemId then throw_io InvalidItemId
           else bind_io (getObject l itemId) (\<lambda>item.
             case found item of
               None \<Rightarrow> throw_io (ItemNotFound itemId)
             | Some d \<Rightarrow>
                 if owner d = Immutable then throw_io TypeError
                 else if owner d \<noteq> AddressOwner ownr then throw_io (ItemNotOwnedBy itemId ownr)
                 else bind_io newTransactionBlock (\<lambda>_.
                   return_io
                     [KioskPlace (otype d) (TxObject (cap_kioskId cap)) (capRef cap) (dataRef d)])))"

text \<open>Lines 357 to 397.\<close>

definition lockItem :: "ledger \<Rightarrow> string \<Rightarrow> operation list io" where
  "lockItem l itemId =
     bind_io (catch_null (findKioskCap l None)) (\<lambda>kioskCap.
       let ownr = signer_address l in
       case kioskCap of
         None \<Rightarrow> throw_io NoKioskForSender
       | Some cap \<Rightarrow>
           if \<not> isValidSuiObjectId l itemId then throw_io InvalidItemId
           else bind_io (getObject l itemId) (\<lambda>item.
             case found item of
               None \<Rightarrow> throw_io (ItemNotFound itemId)
             | Some d \<Rightarrow>
                 if owner d = Immutable then throw_io TypeError
                 else if owner d \<noteq> AddressOwner ownr then throw_io (ItemNotOwnedBy itemId ownr)
                 else bind_io (queryTransferPolicy l (otype d)) (\<lambda>policies.
                   case policies of
                     [] \<Rightarrow> throw_io (ItemHasNoTransferPolicy itemId (otype d))
                   | policy # rest \<Rightarrow>
                       bind_io newTransactionBlock (\<lambda>_.
                         return_io
                           [KioskLock (otype d) (TxObject (cap_kioskId cap)) (capRef cap)
                              (TxObject (policy_id policy)) (dataRef d)]))))"

subsection \<open>Commands \<open>take\<close>, \<open>list\<close>, \<open>delist\<close> and \<open>withdraw\<close>\<close>

text \<open>Lines 404 to 434.\<close>

definition takeItem :: "ledger \<Rightarrow> string \<Rightarrow> string option \<Rightarrow> operation list io" where
  "takeItem l itemId address =
     bind_io (catch_null (findKioskCap l None)) (\<lambda>kioskCap.
       let receiver = or_else address (signer_address l) in
       if \<not> isValidSuiAddress l receiver then throw_io InvalidReceiverAddress
       else if \<not> isValidSuiObjectId l itemId then throw_io InvalidItemId
       else case kioskCap of
         None \<Rightarrow> throw_io NoKioskForSender
       | Some cap \<Rightarrow>
           bind_io (getObject l itemId) (\<lambda>item.
             case found item of
               None \<Rightarrow> throw_io (ItemNotFound itemId)
             | Some d \<Rightarrow>
                 bind_io newTransactionBlock (\<lambda>_.
                   return_io
                     [KioskTake (otype d) (TxObject (cap_kioskId cap)) (capRef cap) itemId,
                      TransferObjects [TxResult 0] (TxPure receiver)])))"

text \<open>Lines 440 to 463.\<close>

definition listItem :: "ledger \<Rightarrow> string \<Rightarrow> string \<Rightarrow> operation list io" where
  "listItem l itemId amount =
     bind_io (catch_null (findKioskCap l None)) (\<lambda>kioskCap.
       case kioskCap of
         None \<Rightarrow> throw_io NoKioskForSender
       | Some cap \<Rightarrow>
           if \<not> isValidSuiObjectId l itemId then throw_io InvalidItemId
           else bind_io (getObject l itemId) (\<lambda>item.
             case found item of
               None \<Rightarrow> throw_io (ItemNotFound itemId)
             | Some d \<Rightarrow>
                 bind_io newTransactionBlock (\<lambda>_.
                   return_io
                     [KioskList (otype d) (TxObject (cap_kioskId cap)) (capRef cap) itemId amount])))"

text \<open>Lines 469 to 492.\<close>

definition delistItem :: "ledger \<Rightarrow> string \<Rightarrow> operation list io" where
  "delistItem l itemId =
     bind_io (catch_null (findKioskCap l None)) (\<lambda>kioskCap.
       case kioskCap of
         None \<Rightarrow> throw_io NoKioskForSender
       | Some cap \<Rightarrow>
           if \<not> isValidSuiObjectId l itemId then throw_io InvalidItemId
           else bind_io (getObject l itemId) (\<lambda>item.
             case found item of
               None \<Rightarrow> throw_io (ItemNotFound itemId)
             | Some d \<Rightarrow>
                 bind_io newTransactionBlock (\<lambda>_.
                   return_io
                     [KioskDelist (otype d) (TxObject (cap_kioskId cap)) (capRef cap) itemId])))"

text \<open>Lines 687 to 702.\<close>

definition withdrawAll :: "ledger \<Rightarrow> operation list io" where
  "withdrawAll l =
     (let sender = signer_address l in
      bind_io (catch_null (findKioskCap l (Some sender))) (\<lambda>kioskCap.
        case kioskCap of
          None \<Rightarrow> throw_io NoKioskForSender
        | Some cap \<Rightarrow>
            bind_io newTransactionBlock (\<lambda>_.
              return_io
                [KioskWithdraw (TxObject (cap_kioskId cap)) (capRef cap),
                 TransferObjects [TxResult 0] (TxPure sender)])))"

subsection \<open>Command \<open>purchase\<close>\<close>

record purchase_opts =
  opt_target :: "string option"
  opt_kiosk :: "string option"
  opt_env :: "string option"

text \<open>Lines 504 to 517: the three input checks, before anything is fetched.\<close>

definition purchaseItem_validate :: "ledger \<Rightarrow> string \<Rightarrow> purchase_opts \<Rightarrow> unit io" where
  "purchaseItem_validate l itemId opts =
     (if truthy (opt_target opts) \<and> opt_target opts \<noteq> Some ''kiosk''
         \<and> \<not> isValidSuiAddress l (or_else (opt_target opts) [])
      then throw_io InvalidTargetAddress
      else if truthy (opt_kiosk opts) \<and> \<not> isValidSuiObjectId l (or_else (opt_kiosk opts) [])
      then throw_io InvalidKioskId
      else if \<not> isValidSuiObjectId l itemId then throw_io InvalidItemId
      else return_io ())"

text \<open>
  Lines 519 to 547: the item is fetched and must be owned by an object; the kiosk id is
  the one given, or else the owner of the object that owns the item. The tests
  \<open>'ObjectOwner' in owner\<close> of lines 530 and 542 throw on the owner \<open>Immutable\<close>.
\<close>

definition purchaseItem_resolveKiosk ::
  "ledger \<Rightarrow> string \<Rightarrow> string option \<Rightarrow> (object_data \<times> string) io" where
  "purchaseItem_resolveKiosk l itemId inputKioskId =
     bind_io (getObject l itemId) (\<lambda>itemInfo.
       case found itemInfo of
         None \<Rightarrow> throw_io (ItemNotFound itemId)
       | Some d \<Rightarrow>
           (case owner d of
              ObjectOwner itemKeyId \<Rightarrow>
                if truthy inputKioskId then return_io (d, or_else inputKioskId [])
                else bind_io (getObject l itemKeyId) (\<lambda>itemKey.
                  case found itemKey of
                    None \<Rightarrow> throw_io (DynamicFieldKeyNotFound itemId)
                  | Some k \<Rightarrow>
                      (case owner k of
                         ObjectOwner kioskId \<Rightarrow> return_io (d, kioskId)
                       | Immutable \<Rightarrow> throw_io TypeError
                       | _ \<Rightarrow> throw_io (DynamicFieldKeyNotOwnedByObject itemId)))
            | Immutable \<Rightarrow> throw_io TypeError
            | _ \<Rightarrow> throw_io (ItemNotOwnedByObject itemId)))"

text \<open>
  \<open>Promise.all\<close> of three calls: all three are issued, in the order written, and the
  whole rejects when one of them does.
\<close>

definition promise_all3 :: "'a io \<Rightarrow> 'b io \<Rightarrow> 'c io \<Rightarrow> ('a \<times> 'b \<times> 'c) io" where
  "promise_all3 a b c =
     (fst a @ fst b @ fst c,
      case snd a of
        Inl e \<Rightarrow> Inl e
      | Inr x \<Rightarrow>
          (case snd b of
             Inl e \<Rightarrow> Inl e
           | Inr y \<Rightarrow> (case snd c of Inl e \<Rightarrow> Inl e | Inr z \<Rightarrow> Inr (x, y, z))))"

definition getListing :: "ledger \<Rightarrow> string \<Rightarrow> string \<Rightarrow> object_response io" where
  "getListing l parentId itemId =
     await (GetDynamicFieldObject parentId itemId) (rpc_getDynamicFieldObject l parentId itemId)"

text \<open>
  Lines 549 to 572: the kiosk, the policies of the item's type and the listing are
  fetched together; then the listing, the kiosk and the policies are checked, in this
  order. (The item, checked again at line 566, was already found.)
\<close>

definition purchaseItem_fetch ::
  "ledger \<Rightarrow> string \<Rightarrow> object_data \<Rightarrow> string
     \<Rightarrow> (object_data \<times> transfer_policy list \<times> object_data) io" where
  "purchaseItem_fetch l itemId d kioskId =
     bind_io
       (promise_all3 (getObject l kioskId) (queryTransferPolicy l (otype d))
          (getListing l kioskId itemId))
       (\<lambda>(kiosk, policies, listing).
          case found listing of
            None \<Rightarrow> throw_io (ItemNotListed itemId kioskId)
          | Some listingData \<Rightarrow>
              (case found kiosk of
                 None \<Rightarrow> throw_io (KioskNotFound kioskId)
               | Some kioskData \<Rightarrow>
                   if policies = [] then throw_io (NoTransferPolicy (otype d))
                   else return_io (kioskData, policies, listingData)))"

text \<open>\<open>policies[0]\<close>: \<open>undefined\<close> on an empty array.\<close>

fun first_policy :: "transfer_policy list \<Rightarrow> transfer_policy option" where
  "first_policy [] = None"
| "first_policy (p # ps) = Some p"

text \<open>
  Lines 574, 575, 577 and 586 to 597: the arguments of the call of
  \<open>purchaseAndResolvePolicies\<close>.
\<close>

definition purchase_request ::
  "purchase_opts \<Rightarrow> object_data \<Rightarrow> object_data \<Rightarrow> transfer_policy list \<Rightarrow> object_data
     \<Rightarrow> kiosk_owner_cap \<Rightarrow> resolve_request" where
  "purchase_request opts d kiosk policies listing cap =
     \<lparr>req_type = otype d,
      req_price = content_value listing,
      req_kiosk = TxObject (objectId kiosk),
      req_itemId = objectId d,
      req_policy = first_policy policies,
      req_env = (if truthy (opt_env opts) \<and> opt_env opts = Some ''mainnet''
                 then Mainnet else Testnet),
      req_ownedKiosk = cap_kioskId cap,
      req_ownedKioskCap = cap_objectId cap\<rparr>"

text \<open>
  Lines 574 to 611: the block is created, the caller's capability is looked up, the
  rules are resolved into the block, and unless \<open>canTransfer\<close> is false one last
  command is appended before the block is sent.
\<close>

definition purchaseItem_assemble ::
  "ledger \<Rightarrow> purchase_opts \<Rightarrow> object_data \<Rightarrow> object_data \<Rightarrow> transfer_policy list
     \<Rightarrow> object_data \<Rightarrow> operation list io" where
  "purchaseItem_assemble l opts d kiosk policies listing =
     bind_io newTransactionBlock (\<lambda>_.
       bind_io (catch_null (findKioskCap l None)) (\<lambda>kioskCap.
         case kioskCap of
           None \<Rightarrow> throw_io NoKioskForSender
         | Some cap \<Rightarrow>
             (let ownedKiosk = cap_kioskId cap;
                  ownedKioskCap = cap_objectId cap
              in case purchaseAndResolvePolicies l
                        (purchase_request opts d kiosk policies listing cap) of
                   None \<Rightarrow> throw_io RuleResolutionFailure
                 | Some (txb, item, canTransfer) \<Rightarrow>
                     if \<not> canTransfer then return_io txb
                     else if opt_target opts = Some ''kiosk''
                     then return_io
                            (txb @ [KioskPlace (otype d) (RawId ownedKiosk)
                                      (RawId ownedKioskCap) item])
                     else return_io
                            (txb @ [TransferObjects [item]
                                      (TxPure (or_else (opt_target opts) (signer_address l)))]))))"

text \<open>Lines 501 to 612.\<close>

definition purchaseItem :: "ledger \<Rightarrow> string \<Rightarrow> purchase_opts \<Rightarrow> operation list io" where
  "purchaseItem l itemId opts =
     bind_io (purchaseItem_validate l itemId opts) (\<lambda>_.
       bind_io (purchaseItem_resolveKiosk l itemId (opt_kiosk opts)) (\<lambda>(d, kioskId).
         bind_io (purchaseItem_fetch l itemId d kioskId) (\<lambda>(kiosk, policies, listing).
           purchaseItem_assemble l opts d kiosk policies listing)))"

subsection \<open>Rule resolution\<close>

text \<open>
  \<open>purchaseAndResolvePolicies\<close> is a function of the kiosk SDK and not part of this
  package's sources; the commands above take it as a parameter of the ledger. What it
  emits is described by the design of the rule engine, which the next definitions follow.
\<close>

datatype rule_kind = RoyaltyRule | KioskLockRule

text \<open>
  Modelled from the spec: the resolving action of a royalty rule, missing from the
  sources with the rest of the rule engine. It debits the royalty on the price and
  confirms the rule; the plan shows it as the one operation \<open>confirm-royalty\<close>.
\<close>

definition royaltyAction :: "resolve_request \<Rightarrow> transfer_policy \<Rightarrow> operation" where
  "royaltyAction req p =
     MoveCall ''royalty_rule::confirm'' [TxObject (policy_id p), TxResult 0, TxPure (req_price req)]"

text \<open>
  Modelled from the spec: the resolving action of a kiosk-lock rule, missing from the
  sources with the rest of the rule engine. It locks the purchased item into the
  destination kiosk, which is the caller's own kiosk with the caller's capability.
\<close>

definition kioskLockAction :: "resolve_request \<Rightarrow> transfer_policy \<Rightarrow> operation" where
  "kioskLockAction req p =
     KioskLock (req_type req) (RawId (req_ownedKiosk req)) (RawId (req_ownedKioskCap req))
       (TxObject (policy_id p)) (TxResult 0)"

text \<open>
  Modelled from the spec: the loop of the rule engine over the rules of the policy,
  missing from the sources. The rules are taken in the order the policy stores them; each
  known rule appends its one action; the kiosk-lock rule clears \<open>canTransfer\<close>, which no
  later rule sets again; an unrecognised rule is a hard failure.
\<close>

fun resolveRuleList ::
  "(string \<Rightarrow> rule_kind option) \<Rightarrow> resolve_request \<Rightarrow> transfer_policy \<Rightarrow> string list
     \<Rightarrow> operation list \<times> bool \<Rightarrow> (operation list \<times> bool) option" where
  "resolveRuleList known req p [] (ops, canTransfer) = Some (ops, canTransfer)"
| "resolveRuleList known req p (rule # rest) (ops, canTransfer) =
     (case known rule of
        None \<Rightarrow> None
      | Some RoyaltyRule \<Rightarrow>
          resolveRuleList known req p rest (ops @ [royaltyAction req p], canTransfer)
      | Some KioskLockRule \<Rightarrow>
          resolveRuleList known req p rest (ops @ [kioskLockAction req p], False))"

text \<open>
  Modelled from the spec: \<open>resolveRules\<close>, the rule engine behind
  \<open>purchaseAndResolvePolicies\<close>, missing from the sources. The purchase, which debits the
  price, comes first and yields the item; then the actions of the rules in rule order;
  \<open>canTransfer\<close> starts true. The table \<open>known\<close> says which rule identifiers the engine
  recognises in each environment.
\<close>

definition resolveRules ::
  "(environment \<Rightarrow> string \<Rightarrow> rule_kind option) \<Rightarrow> resolve_request
     \<Rightarrow> (operation list \<times> argument \<times> bool) option" where
  "resolveRules known req =
     (case req_policy req of
        None \<Rightarrow> None
      | Some p \<Rightarrow>
          (case resolveRuleList (known (req_env req)) req p (rules p)
                  ([MoveCall ''kiosk::purchase''
                      [req_kiosk req, RawId (req_itemId req), TxPure (req_price req)]], True) of
             None \<Rightarrow> None
           | Some (ops, canTransfer) \<Rightarrow> Some (ops, TxResult 0, canTransfer)))"

subsection \<open>Notions used in the statements\<close>

text \<open>The identifiers an error carries in its message.\<close>

fun error_ids :: "error \<Rightarrow> string list" where
  "error_ids (InvalidAddress a) = [a]"
| "error_ids (NoKioskFound a) = [a]"
| "error_ids (KioskAlreadyExists a) = [a]"
| "error_ids (ItemNotFound i) = [i]"
| "error_ids (ItemNotOwnedBy i a) = [i, a]"
| "error_ids (ItemNotOwnedByObject i) = [i]"
| "error_ids (DynamicFieldKeyNotFound i) = [i]"
| "error_ids (DynamicFieldKeyNotOwnedByObject i) = [i]"
| "error_ids (ItemNotListed i k) = [i, k]"
| "error_ids (KioskNotFound k) = [k]"
| "error_ids (NoTransferPolicy ty) = [ty]"
| "error_ids (ItemHasNoTransferPolicy i ty) = [i, ty]"
| "error_ids _ = []"

text \<open>The errors raised by the input checks.\<close>

fun is_invalid_input :: "error \<Rightarrow> bool" where
  "is_invalid_input InvalidTargetAddress = True"
| "is_invalid_input InvalidKioskId = True"
| "is_invalid_input InvalidItemId = True"
| "is_invalid_input InvalidReceiverAddress = True"
| "is_invalid_input _ = False"

text \<open>
  The same ledger, answering the capability query and the policy query with the first
  element of its answer only.
\<close>

definition first_only :: "ledger \<Rightarrow> ledger" where
  "first_only l =
     l\<lparr>rpc_queryTransferPolicy := (\<lambda>ty. map_option (take 1) (rpc_queryTransferPolicy l ty)),
       rpc_getOwnedKiosks := (\<lambda>a. map_option (take 1) (rpc_getOwnedKiosks l a))\<rparr>"

subsection \<open>A sample ledger\<close>

text \<open>
  An item \<open>0xI\<close> held by the dynamic field \<open>0xW\<close> of the kiosk \<open>0xK\<close> and listed there,
  an item \<open>0xM\<close> owned by the signer \<open>0xA\<close>, who holds two capabilities, and two policies
  for the items' type. The rule engine of the sample ledger is \<open>resolveRules\<close> with a
  table of two rules.
\<close>

definition demo_item :: object_data where
  "demo_item = \<lparr>objectId = ''0xI'', version = ''7'', digest = ''dI'', otype = ''0xP::nft::Nft'',
     owner = ObjectOwner ''0xW'', content_value = []\<rparr>"

definition demo_key :: object_data where
  "demo_key = \<lparr>objectId = ''0xW'', version = ''7'', digest = ''dW'', otype = ''0x2::dynamic_field::Field'',
     owner = ObjectOwner ''0xK'', content_value = []\<rparr>"

definition demo_kiosk :: object_data where
  "demo_kiosk = \<lparr>objectId = ''0xK'', version = ''9'', digest = ''dK'', otype = ''0x2::kiosk::Kiosk'',
     owner = Shared, content_value = []\<rparr>"

definition demo_listing :: object_data where
  "demo_listing = \<lparr>objectId = ''0xL'', version = ''9'', digest = ''dL'', otype = ''0x2::dynamic_field::Field'',
     owner = ObjectOwner ''0xK'', content_value = ''1000''\<rparr>"

definition demo_owned :: object_data where
  "demo_owned = \<lparr>objectId = ''0xM'', version = ''3'', digest = ''dM'', otype = ''0xP::nft::Nft'',
     owner = AddressOwner ''0xA'', content_value = []\<rparr>"

definition demo_cap :: kiosk_owner_cap where
  "demo_cap = \<lparr>cap_objectId = ''0xC'', cap_kioskId = ''0xH'', cap_version = ''2'', cap_digest = ''dC''\<rparr>"

definition demo_cap2 :: kiosk_owner_cap where
  "demo_cap2 = \<lparr>cap_objectId = ''0xD'', cap_kioskId = ''0xG'', cap_version = ''4'', cap_digest = ''dD''\<rparr>"

definition royalty_policy :: transfer_policy where
  "royalty_policy = \<lparr>policy_id = ''0xT'', rules = [''royalty_rule'']\<rparr>"

definition lock_policy :: transfer_policy where
  "lock_policy = \<lparr>policy_id = ''0xU'', rules = [''kiosk_lock_rule'']\<rparr>"

definition present :: "object_data \<Rightarrow> object_response option" where
  "present d = Some \<lparr>error = None, data = Some d\<rparr>"

definition absent :: "object_response option" where
  "absent = Some \<lparr>error = Some ''notExists'', data = None\<rparr>"

definition lock_royalty_policy :: transfer_policy where
  "lock_royalty_policy = \<lparr>policy_id = ''0xV'', rules = [''kiosk_lock_rule'', ''royalty_rule'']\<rparr>"

definition demo_rules :: "environment \<Rightarrow> string \<Rightarrow> rule_kind option" where
  "demo_rules env rule =
     (if rule = ''royalty_rule'' then Some RoyaltyRule
      else if rule = ''kiosk_lock_rule'' then Some KioskLockRule
      else None)"

definition demo_ledger :: ledger where
  "demo_ledger =
     \<lparr>signer_address = ''0xA'',
      isValidSuiAddress = (\<lambda>s. take 2 s = ''0x''),
      isValidSuiObjectId = (\<lambda>s. take 2 s = ''0x''),
      rpc_getObject = (\<lambda>i. if i = ''0xI'' then present demo_item
                            else if i = ''0xW'' then present demo_key
                            else if i = ''0xK'' then present demo_kiosk
                            else if i = ''0xM'' then present demo_owned
                            else absent),
      rpc_getDynamicFieldObject =
        (\<lambda>p i. if p = ''0xK'' \<and> i = ''0xI'' then present demo_listing else absent),
      rpc_queryTransferPolicy =
        (\<lambda>t. if t = ''0xP::nft::Nft'' then Some [royalty_policy, lock_policy] else Some []),
      rpc_getOwnedKiosks = (\<lambda>a. if a = ''0xA'' then Some [demo_cap, demo_cap2] else Some []),
      purchaseAndResolvePolicies = resolveRules demo_rules\<rparr>"

definition no_cap_ledger :: ledger where
  "no_cap_ledger = demo_ledger\<lparr>rpc_getOwnedKiosks := (\<lambda>a. Some [])\<rparr>"

definition locking_ledger :: ledger where
  "locking_ledger = demo_ledger\<lparr>rpc_queryTransferPolicy := (\<lambda>t. Some [lock_policy, royalty_policy])\<rparr>"

definition no_policy_ledger :: ledger where
  "no_policy_ledger = demo_ledger\<lparr>rpc_queryTransferPolicy := (\<lambda>t. Some [])\<rparr>"

definition unlisted_ledger :: ledger where
  "unlisted_ledger = no_policy_ledger\<lparr>rpc_getDynamicFieldObject := (\<lambda>p i. absent)\<rparr>"

definition lock_first_ledger :: ledger where
  "lock_first_ledger =
     demo_ledger\<lparr>rpc_queryTransferPolicy := (\<lambda>t. Some [lock_royalty_policy])\<rparr>"

definition missing_wrapper_ledger :: ledger where
  "missing_wrapper_ledger =
     demo_ledger\<lparr>rpc_getObject := (\<lambda>i. if i = ''0xW'' then absent else rpc_getObject demo_ledger i)\<rparr>"

definition rejecting_ledger :: ledger where
  "rejecting_ledger = demo_ledger\<lparr>rpc_getOwnedKiosks := (\<lambda>a. None)\<rparr>"

definition plain_opts :: purchase_opts where
  "plain_opts = \<lparr>opt_target = None, opt_kiosk = None, opt_env = None\<rparr>"

section \<open>Properties\<close>

subsection \<open>Auxiliary facts\<close>

lemmas io_defs = bind_io_def return_io_def throw_io_def catch_null_def await_def newTransactionBlock_def
  getObject_def getOwnedKiosks_def queryTransferPolicy_def getListing_def promise_all3_def

lemma findKioskCap_lookup:
  "catch_null (findKioskCap l a) =
     (if \<not> isValidSuiAddress l (or_else a (signer_address l)) then ([], Inr None)
      else ([GetOwnedKiosks (or_else a (signer_address l))],
            case rpc_getOwnedKiosks l (or_else a (signer_address l)) of
              None \<Rightarrow> Inr None
            | Some [] \<Rightarrow> Inr None
            | Some (c # cs) \<Rightarrow> Inr (Some c)))"
  by (simp add: findKioskCap_def io_defs Let_def split: option.splits list.splits)

lemma bind_io_Inl: "bind_io (t, Inl e) f = (t, Inl e)"
  by (simp add: bind_io_def)

lemma bind_io_Inr: "bind_io (t, Inr x) f = (t @ fst (f x), snd (f x))"
  by (simp add: bind_io_def split: prod.splits)

lemma validate_trace: "fst (purchaseItem_validate l i opts) = []"
  by (simp add: purchaseItem_validate_def throw_io_def return_io_def)

lemma fetch_trace:
  "fst (purchaseItem_fetch l i d kid) =
     [GetObject kid, QueryTransferPolicy (otype d), GetDynamicFieldObject kid i]"
  by (simp add: purchaseItem_fetch_def io_defs split: option.splits sum.splits prod.splits)

lemma resolveKiosk_trace: "NewTransactionBlock \<notin> set (fst (purchaseItem_resolveKiosk l i k))"
  by (auto simp: purchaseItem_resolveKiosk_def io_defs split: option.splits sum.splits prod.splits owner.splits)

lemmas demo_defs = demo_ledger_def no_cap_ledger_def locking_ledger_def no_policy_ledger_def
  unlisted_ledger_def lock_first_ledger_def missing_wrapper_ledger_def rejecting_ledger_def
  plain_opts_def demo_item_def demo_key_def demo_kiosk_def demo_listing_def
  demo_owned_def demo_cap_def demo_cap2_def royalty_policy_def lock_policy_def
  lock_royalty_policy_def present_def absent_def demo_rules_def

lemmas rule_defs = resolveRules_def royaltyAction_def kioskLockAction_def

lemmas run_defs = purchaseItem_def purchaseItem_validate_def purchaseItem_resolveKiosk_def
  purchaseItem_fetch_def purchaseItem_assemble_def purchase_request_def findKioskCap_def
  placeItem_def lockItem_def takeItem_def listItem_def delistItem_def withdrawAll_def newKiosk_def
  capRef_def dataRef_def found_def io_defs Let_def

lemma purchaseItem_no_cap:
  assumes "isValidSuiAddress l (signer_address l)"
    and "rpc_getOwnedKiosks l (signer_address l) = Some []"
  shows "purchaseItem_assemble l opts d kiosk policies listing =
           ([NewTransactionBlock, GetOwnedKiosks (signer_address l)], Inl NoKioskForSender)"
  using assms by (simp add: purchaseItem_assemble_def findKioskCap_lookup newTransactionBlock_def bind_io_Inr throw_io_def)

lemma catch_null_total: "\<exists>t c. catch_null m = (t, Inr c)"
  by (cases m; cases "snd m") (simp_all add: catch_null_def)

lemma findKioskCap_trace:
  "fst (findKioskCap l a) = fst (catch_null (findKioskCap l a))"
  by (simp add: catch_null_def split: prod.splits sum.splits)

lemma findKioskCap_only_query:
  "set (fst (findKioskCap l a)) \<subseteq> {GetOwnedKiosks (or_else a (signer_address l))}"
  by (simp add: findKioskCap_trace findKioskCap_lookup)

lemma first_only_simps:
  "signer_address (first_only l) = signer_address l"
  "isValidSuiAddress (first_only l) = isValidSuiAddress l"
  "isValidSuiObjectId (first_only l) = isValidSuiObjectId l"
  "rpc_getObject (first_only l) = rpc_getObject l"
  "rpc_getDynamicFieldObject (first_only l) = rpc_getDynamicFieldObject l"
  "purchaseAndResolvePolicies (first_only l) = purchaseAndResolvePolicies l"
  by (simp_all add: first_only_def)

lemma first_only_cap: "catch_null (findKioskCap (first_only l) a) = catch_null (findKioskCap l a)"
  by (simp add: findKioskCap_lookup first_only_simps)
     (simp add: first_only_def split: option.splits list.splits)

lemma first_policy_take: "first_policy (take (Suc 0) ps) = first_policy ps"
  by (cases ps) simp_all

lemma first_only_request:
  "purchase_request opts d kiosk (take (Suc 0) ps) listing cap
     = purchase_request opts d kiosk ps listing cap"
  by (simp add: purchase_request_def first_policy_take)

lemma first_only_assemble:
  "purchaseItem_assemble (first_only l) opts d kiosk (take (Suc 0) ps) listing
     = purchaseItem_assemble l opts d kiosk ps listing"
  by (simp add: purchaseItem_assemble_def first_only_cap first_only_simps first_only_request
        cong: option.case_cong prod.case_cong if_cong)


lemma first_only_fetch:
  "purchaseItem_fetch (first_only l) i d kid =
     (case purchaseItem_fetch l i d kid of
        (t, Inl e) \<Rightarrow> (t, Inl e)
      | (t, Inr (kiosk, ps, listing)) \<Rightarrow> (t, Inr (kiosk, take 1 ps, listing)))"
  by (auto simp: purchaseItem_fetch_def io_defs first_only_def
        split: option.splits sum.splits prod.splits list.splits)

lemma first_only_resolve:
  "purchaseItem_resolveKiosk (first_only l) i k = purchaseItem_resolveKiosk l i k"
  by (simp add: purchaseItem_resolveKiosk_def getObject_def first_only_simps
        cong: option.case_cong owner.case_cong if_cong)

lemma first_only_validate:
  "purchaseItem_validate (first_only l) i opts = purchaseItem_validate l i opts"
  by (simp add: purchaseItem_validate_def first_only_simps)

lemma first_only_purchase: "purchaseItem (first_only l) i opts = purchaseItem l i opts"
proof -
  have "bind_io (purchaseItem_fetch (first_only l) i d kid)
          (\<lambda>(kiosk, policies, listing). purchaseItem_assemble (first_only l) opts d kiosk policies listing)
      = bind_io (purchaseItem_fetch l i d kid)
          (\<lambda>(kiosk, policies, listing). purchaseItem_assemble l opts d kiosk policies listing)"
    for d kid
    by (cases "purchaseItem_fetch l i d kid")
       (auto simp: first_only_fetch bind_io_def first_only_assemble split: sum.splits prod.splits)
  then show ?thesis
    by (simp add: purchaseItem_def first_only_resolve first_only_validate cong: prod.case_cong)
qed

lemma first_only_lock: "lockItem (first_only l) i = lockItem l i"
proof -
  have q: "bind_io (queryTransferPolicy (first_only l) ty)
            (\<lambda>policies. case policies of [] \<Rightarrow> throw_io e | policy # rest \<Rightarrow> f policy)
         = bind_io (queryTransferPolicy l ty)
            (\<lambda>policies. case policies of [] \<Rightarrow> throw_io e | policy # rest \<Rightarrow> f policy)"
    for ty e and f :: "transfer_policy \<Rightarrow> operation list io"
    by (auto simp: queryTransferPolicy_def await_def bind_io_def first_only_def
          split: option.splits list.splits)
  show ?thesis
    by (simp add: lockItem_def first_only_cap first_only_simps getObject_def q
          cong: option.case_cong if_cong)
qed

lemma resolveKiosk_errors_aux:
  "snd (purchaseItem_resolveKiosk l i k) = Inl e \<Longrightarrow>
     e \<in> {RpcFailure, TypeError, ItemNotFound i, ItemNotOwnedByObject i,
          DynamicFieldKeyNotFound i, DynamicFieldKeyNotOwnedByObject i}"
  by (auto simp: purchaseItem_resolveKiosk_def io_defs
        split: option.splits sum.splits prod.splits owner.splits if_splits)

lemma purchaseItem_phases:
  assumes "snd (purchaseItem_validate l i opts) = Inr ()"
    and "purchaseItem_resolveKiosk l i (opt_kiosk opts) = (t1, Inr (d, kid))"
  shows "purchaseItem l i opts =
           bind_io (t1, Inr (d, kid)) (\<lambda>(d, kioskId).
             bind_io (purchaseItem_fetch l i d kioskId) (\<lambda>(kiosk, policies, listing).
               purchaseItem_assemble l opts d kiosk policies listing))"
proof -
  have "purchaseItem_validate l i opts = ([], Inr ())"
    using assms(1) validate_trace [of l i opts] by (cases "purchaseItem_validate l i opts") simp
  then show ?thesis
    using assms(2) by (simp add: purchaseItem_def bind_io_Inr)
qed

lemma purchaseItem_reaches_assemble:
  assumes "snd (purchaseItem_validate l i opts) = Inr ()"
    and "purchaseItem_resolveKiosk l i (opt_kiosk opts) = (t1, Inr (d, kid))"
    and "purchaseItem_fetch l i d kid = (t2, Inr (kiosk, policies, listing))"
  shows "purchaseItem l i opts =
           (t1 @ t2 @ fst (purchaseItem_assemble l opts d kiosk policies listing),
            snd (purchaseItem_assemble l opts d kiosk policies listing))"
  by (simp add: purchaseItem_phases [OF assms(1,2)] bind_io_Inr assms(3))

lemma assemble_resolved:
  assumes "catch_null (findKioskCap l None) = (t3, Inr (Some cap))"
    and "purchaseAndResolvePolicies l (purchase_request opts d kiosk policies listing cap)
           = Some (ops, item, canTransfer)"
  shows "purchaseItem_assemble l opts d kiosk policies listing =
           (NewTransactionBlock # t3,
            Inr (if \<not> canTransfer then ops
                 else if opt_target opts = Some ''kiosk''
                 then ops @ [KioskPlace (otype d) (RawId (cap_kioskId cap))
                               (RawId (cap_objectId cap)) item]
                 else ops @ [TransferObjects [item]
                               (TxPure (or_else (opt_target opts) (signer_address l)))]))"
  using assms
  by (simp add: purchaseItem_assemble_def newTransactionBlock_def bind_io_Inr return_io_def)

lemma purchaseItem_success:
  assumes "snd (purchaseItem l i opts) = Inr tx"
  shows "\<exists>t1 d kid t2 kiosk policies listing.
           purchaseItem_resolveKiosk l i (opt_kiosk opts) = (t1, Inr (d, kid))
         \<and> purchaseItem_fetch l i d kid = (t2, Inr (kiosk, policies, listing))
         \<and> fst (purchaseItem l i opts)
             = t1 @ t2 @ fst (purchaseItem_assemble l opts d kiosk policies listing)
         \<and> snd (purchaseItem_assemble l opts d kiosk policies listing) = Inr tx"
proof -
  obtain tv rv where v: "purchaseItem_validate l i opts = (tv, rv)" by (cases "purchaseItem_validate l i opts")
  obtain t1 r1 where r: "purchaseItem_resolveKiosk l i (opt_kiosk opts) = (t1, r1)"
    by (cases "purchaseItem_resolveKiosk l i (opt_kiosk opts)")
  from assms v have rv: "rv = Inr ()" and tv: "tv = []"
    using validate_trace [of l i opts]
    by (cases rv; simp add: purchaseItem_def bind_io_def)+
  from assms v r rv obtain d kid where r1: "r1 = Inr (d, kid)"
    by (cases r1) (auto simp: purchaseItem_def bind_io_def)
  obtain t2 r2 where f: "purchaseItem_fetch l i d kid = (t2, r2)"
    by (cases "purchaseItem_fetch l i d kid")
  from assms v r rv r1 f obtain kiosk policies listing where r2: "r2 = Inr (kiosk, policies, listing)"
    by (cases r2) (auto simp: purchaseItem_def bind_io_def split: prod.splits)
  have "purchaseItem l i opts =
           (t1 @ t2 @ fst (purchaseItem_assemble l opts d kiosk policies listing),
            snd (purchaseItem_assemble l opts d kiosk policies listing))"
    using purchaseItem_reaches_assemble [of l i opts t1 d kid t2 kiosk policies listing]
      v r rv r1 f r2 by simp
  with assms r r1 f r2 show ?thesis by auto
qed

lemma fetch_no_policy:
  assumes "rpc_queryTransferPolicy l (otype d) = Some []"
  shows "\<exists>e. purchaseItem_fetch l i d kid =
               ([GetObject kid, QueryTransferPolicy (otype d), GetDynamicFieldObject kid i], Inl e)
            \<and> (e = NoTransferPolicy (otype d) \<longleftrightarrow>
                 (\<exists>rk rl. rpc_getObject l kid = Some rk \<and> found rk \<noteq> None
                    \<and> rpc_getDynamicFieldObject l kid i = Some rl \<and> found rl \<noteq> None))"
  using assms
  by (auto simp: purchaseItem_fetch_def io_defs split: option.splits sum.splits prod.splits)

lemma resolveKiosk_item:
  assumes "purchaseItem_resolveKiosk l i k = (t, Inr (d, kid))"
  shows "\<exists>r. rpc_getObject l i = Some r \<and> found r = Some d"
  using assms
  by (auto simp: purchaseItem_resolveKiosk_def io_defs
        split: option.splits sum.splits prod.splits owner.splits if_splits)

lemma purchase_no_policy:
  assumes "\<forall>r d. rpc_getObject l i = Some r \<and> found r = Some d
             \<longrightarrow> rpc_queryTransferPolicy l (otype d) = Some []"
  shows "\<exists>t e. purchaseItem l i opts = (t, Inl e) \<and> NewTransactionBlock \<notin> set t"
proof (cases "snd (purchaseItem l i opts)")
  case (Inr tx)
  then obtain t1 d kid t2 kiosk policies listing where
      r: "purchaseItem_resolveKiosk l i (opt_kiosk opts) = (t1, Inr (d, kid))"
    and f: "purchaseItem_fetch l i d kid = (t2, Inr (kiosk, policies, listing))"
    using purchaseItem_success by blast
  from resolveKiosk_item [OF r] assms have "rpc_queryTransferPolicy l (otype d) = Some []"
    by blast
  from fetch_no_policy [OF this, of i kid] f show ?thesis by auto
next
  case (Inl e)
  obtain tv rv where v: "purchaseItem_validate l i opts = (tv, rv)"
    by (cases "purchaseItem_validate l i opts")
  then have tv: "tv = []" using validate_trace [of l i opts] by simp
  obtain t1 r1 where r: "purchaseItem_resolveKiosk l i (opt_kiosk opts) = (t1, r1)"
    by (cases "purchaseItem_resolveKiosk l i (opt_kiosk opts)")
  then have t1: "NewTransactionBlock \<notin> set t1"
    using resolveKiosk_trace [of l i "opt_kiosk opts"] by simp
  have "NewTransactionBlock \<notin> set (fst (purchaseItem l i opts))"
  proof (cases rv)
    case (Inl a)
    then show ?thesis using v tv by (simp add: purchaseItem_def bind_io_def)
  next
    case (Inr u)
    show ?thesis
    proof (cases r1)
      case (Inl b)
      then show ?thesis using v tv Inr r t1 by (simp add: purchaseItem_def bind_io_def)
    next
      case (Inr p)
      obtain d kid where p: "p = (d, kid)" by (cases p)
      from resolveKiosk_item [of l i "opt_kiosk opts" t1 d kid] r Inr p assms
      have "rpc_queryTransferPolicy l (otype d) = Some []" by blast
      from fetch_no_policy [OF this, of i kid] obtain e' where
        "purchaseItem_fetch l i d kid =
           ([GetObject kid, QueryTransferPolicy (otype d), GetDynamicFieldObject kid i], Inl e')"
        by blast
      then show ?thesis
        using v tv \<open>rv = Inr u\<close> r t1 Inr p by (simp add: purchaseItem_def bind_io_def)
    qed
  qed
  with Inl show ?thesis by (cases "purchaseItem l i opts") auto
qed

lemma lock_no_policy:
  assumes "\<forall>r d. rpc_getObject l i = Some r \<and> found r = Some d
             \<longrightarrow> rpc_queryTransferPolicy l (otype d) = Some []"
  shows "\<exists>t e. lockItem l i = (t, Inl e) \<and> NewTransactionBlock \<notin> set t
           \<and> (\<forall>ty. QueryTransferPolicy ty \<in> set t \<longrightarrow> e = ItemHasNoTransferPolicy i ty)"
proof -
  obtain t c where cap: "catch_null (findKioskCap l None) = (t, Inr c)"
    using catch_null_total by blast
  then have t: "set t \<subseteq> {GetOwnedKiosks (signer_address l)}"
    using findKioskCap_only_query [of l None] by (simp add: findKioskCap_trace)
  show ?thesis
  proof (cases c)
    case None
    then show ?thesis using cap t by (auto simp: lockItem_def Let_def bind_io_Inr throw_io_def)
  next
    case (Some kc)
    show ?thesis
    proof (cases "rpc_getObject l i")
      case None
      then show ?thesis
        using cap t Some
        by (auto simp: lockItem_def Let_def bind_io_Inr throw_io_def getObject_def await_def bind_io_Inl)
    next
      case (Some r)
      show ?thesis
      proof (cases "found r")
        case None
        then show ?thesis
          using cap t \<open>c = Some kc\<close> Some
          by (auto simp: lockItem_def Let_def bind_io_Inr throw_io_def getObject_def await_def)
      next
        case (Some d)
        with assms \<open>rpc_getObject l i = Some r\<close>
        have "rpc_queryTransferPolicy l (otype d) = Some []" by blast
        then show ?thesis
          using cap t \<open>c = Some kc\<close> Some \<open>rpc_getObject l i = Some r\<close>
          by (auto simp: lockItem_def Let_def bind_io_Inr throw_io_def getObject_def await_def
                queryTransferPolicy_def)
      qed
    qed
  qed
qed

text \<open>Runs on the sample ledger.\<close>

lemma demo_resolve:
  "purchaseItem_resolveKiosk l ''0xI'' None = ([GetObject ''0xI'', GetObject ''0xW''], Inr (demo_item, ''0xK''))"
  if "rpc_getObject l = rpc_getObject demo_ledger"
  using that
  by (simp add: purchaseItem_resolveKiosk_def io_defs found_def demo_ledger_def present_def
        demo_item_def demo_key_def)

lemma demo_fetch:
  "purchaseItem_fetch l ''0xI'' demo_item ''0xK''
     = ([GetObject ''0xK'', QueryTransferPolicy ''0xP::nft::Nft'', GetDynamicFieldObject ''0xK'' ''0xI''],
        Inr (demo_kiosk, ps, demo_listing))"
  if "rpc_getObject l = rpc_getObject demo_ledger"
    "rpc_getDynamicFieldObject l = rpc_getDynamicFieldObject demo_ledger"
    "rpc_queryTransferPolicy l ''0xP::nft::Nft'' = Some ps" "ps \<noteq> []"
  using that
  by (simp add: purchaseItem_fetch_def io_defs found_def demo_ledger_def present_def demo_item_def
        return_io_def)

lemma demo_cap_lookup:
  "catch_null (findKioskCap l None) = ([GetOwnedKiosks ''0xA''], Inr (Some demo_cap))"
  if "signer_address l = ''0xA''" "isValidSuiAddress l = isValidSuiAddress demo_ledger"
    "rpc_getOwnedKiosks l = rpc_getOwnedKiosks demo_ledger"
  using that by (simp add: findKioskCap_lookup demo_ledger_def)

text \<open>The rule engine.\<close>

lemma resolveRuleList_ops:
  "resolveRuleList known req p rs (ops0, ct0) = Some (ops, ct) \<Longrightarrow>
     set ops \<subseteq> set ops0 \<union> {royaltyAction req p, kioskLockAction req p}
     \<and> (ct \<longleftrightarrow> ct0 \<and> (\<forall>r \<in> set rs. known r \<noteq> Some KioskLockRule))
     \<and> ((\<exists>r \<in> set rs. known r = Some KioskLockRule) \<longrightarrow> kioskLockAction req p \<in> set ops)
     \<and> set ops0 \<subseteq> set ops"
proof (induction rs arbitrary: ops0 ct0)
  case Nil
  then show ?case by auto
next
  case (Cons r rs)
  show ?case
  proof (cases "known r")
    case None
    with Cons.prems show ?thesis by simp
  next
    case (Some kind)
    show ?thesis
    proof (cases kind)
      case RoyaltyRule
      with Some Cons.prems
      have "resolveRuleList known req p rs (ops0 @ [royaltyAction req p], ct0) = Some (ops, ct)"
        by simp
      from Cons.IH [OF this] Some RoyaltyRule show ?thesis by auto
    next
      case KioskLockRule
      with Some Cons.prems
      have "resolveRuleList known req p rs (ops0 @ [kioskLockAction req p], False) = Some (ops, ct)"
        by simp
      from Cons.IH [OF this] Some KioskLockRule show ?thesis by auto
    qed
  qed
qed

lemma resolveRules_locked:
  assumes "resolveRules known req = Some (ops, item, False)"
  shows "\<exists>p. req_policy req = Some p \<and> item = TxResult 0
           \<and> kioskLockAction req p \<in> set ops
           \<and> set ops \<subseteq> {MoveCall ''kiosk::purchase''
                            [req_kiosk req, RawId (req_itemId req), TxPure (req_price req)],
                          royaltyAction req p, kioskLockAction req p}"
proof -
  from assms obtain p where p: "req_policy req = Some p"
    by (auto simp: resolveRules_def split: option.splits)
  with assms have l: "resolveRuleList (known (req_env req)) req p (rules p)
                  ([MoveCall ''kiosk::purchase''
                      [req_kiosk req, RawId (req_itemId req), TxPure (req_price req)]], True)
                = Some (ops, False)" and i: "item = TxResult 0"
    by (auto simp: resolveRules_def split: option.splits)
  from resolveRuleList_ops [OF l] p i show ?thesis by auto
qed

text \<open>The phases of a purchase.\<close>

lemma fetch_answered:
  assumes "rpc_getObject l kid = Some rk"
    and "rpc_queryTransferPolicy l (otype d) = Some ps"
    and "rpc_getDynamicFieldObject l kid i = Some rl"
  shows "purchaseItem_fetch l i d kid =
           ([GetObject kid, QueryTransferPolicy (otype d), GetDynamicFieldObject kid i],
            case found rl of
              None \<Rightarrow> Inl (ItemNotListed i kid)
            | Some listing \<Rightarrow>
                (case found rk of
                   None \<Rightarrow> Inl (KioskNotFound kid)
                 | Some kiosk \<Rightarrow>
                     if ps = [] then Inl (NoTransferPolicy (otype d))
                     else Inr (kiosk, ps, listing)))"
  using assms
  by (simp add: purchaseItem_fetch_def io_defs split: option.splits)

lemma purchaseItem_fetch_error:
  assumes "snd (purchaseItem_validate l i opts) = Inr ()"
    and "purchaseItem_resolveKiosk l i (opt_kiosk opts) = (t1, Inr (d, kid))"
    and "purchaseItem_fetch l i d kid = (t2, Inl e)"
  shows "purchaseItem l i opts = (t1 @ t2, Inl e)"
  by (simp add: purchaseItem_phases [OF assms(1,2)] bind_io_def assms(3))

lemma purchaseItem_no_kiosk_reached:
  assumes "isValidSuiAddress l (signer_address l)"
    and "rpc_getOwnedKiosks l (signer_address l) = Some []"
  shows "\<exists>t e. purchaseItem l i opts = (t, Inl e)
           \<and> (e = NoKioskForSender \<longrightarrow>
                (\<exists>t1 d kid. purchaseItem_resolveKiosk l i (opt_kiosk opts) = (t1, Inr (d, kid))
                   \<and> t = t1 @ [GetObject kid, QueryTransferPolicy (otype d),
                               GetDynamicFieldObject kid i, NewTransactionBlock,
                               GetOwnedKiosks (signer_address l)]))"
proof -
  obtain tv rv where v: "purchaseItem_validate l i opts = (tv, rv)"
    by (cases "purchaseItem_validate l i opts")
  then have tv: "tv = []" using validate_trace [of l i opts] by simp
  obtain t1 r1 where r: "purchaseItem_resolveKiosk l i (opt_kiosk opts) = (t1, r1)"
    by (cases "purchaseItem_resolveKiosk l i (opt_kiosk opts)")
  show ?thesis
  proof (cases rv)
    case (Inl e)
    then have "e \<noteq> NoKioskForSender"
      using v by (auto simp: purchaseItem_validate_def throw_io_def return_io_def split: if_splits)
    with Inl v tv show ?thesis by (simp add: purchaseItem_def bind_io_def)
  next
    case (Inr u)
    show ?thesis
    proof (cases r1)
      case (Inl e)
      then have "e \<noteq> NoKioskForSender"
        using resolveKiosk_errors_aux [of l i "opt_kiosk opts" e] r by auto
      with Inl \<open>rv = Inr u\<close> v tv r show ?thesis by (simp add: purchaseItem_def bind_io_def)
    next
      case (Inr p)
      obtain d kid where p: "p = (d, kid)" by (cases p)
      obtain t2 r2 where f: "purchaseItem_fetch l i d kid = (t2, r2)"
        by (cases "purchaseItem_fetch l i d kid")
      then have t2: "t2 = [GetObject kid, QueryTransferPolicy (otype d), GetDynamicFieldObject kid i]"
        using fetch_trace [of l i d kid] by simp
      show ?thesis
      proof (cases r2)
        case (Inl e)
        then have "e \<noteq> NoKioskForSender"
          using f
          by (auto simp: purchaseItem_fetch_def io_defs
                split: option.splits sum.splits prod.splits if_splits)
        with Inl \<open>rv = Inr u\<close> \<open>r1 = Inr p\<close> p v tv r f show ?thesis
          by (simp add: purchaseItem_def bind_io_def)
      next
        case (Inr q)
        obtain kiosk ps listing where q: "q = (kiosk, ps, listing)" by (cases q)
        from \<open>rv = Inr u\<close> \<open>r1 = Inr p\<close> p v tv r f Inr q t2 show ?thesis
          by (simp add: purchaseItem_def bind_io_def purchaseItem_no_cap [OF assms])
      qed
    qed
  qed
qed

lemma demo_validate:
  "snd (purchaseItem_validate l ''0xI'' opts) = Inr ()"
  if "isValidSuiAddress l = isValidSuiAddress demo_ledger"
    "isValidSuiObjectId l = isValidSuiObjectId demo_ledger"
    "opt_target opts = None \<or> opt_target opts = Some ''kiosk'' \<or> opt_target opts = Some ''0xB''"
    "opt_kiosk opts = None"
  using that
  by (auto simp: purchaseItem_validate_def demo_ledger_def return_io_def)

subsection \<open>Kiosk resolution\<close>

text \<open>
  Claim C1, as amended. A purchase without an explicit kiosk id (none, or the empty string)
  resolves the kiosk in two hops. It returns a kiosk id exactly when the item is found and
  owned by an object \<open>w\<close>, and \<open>w\<close> is found and owned by an object, whose id is the one
  returned; both objects have then been fetched, in this order. An item that is missing
  fails with \<open>ItemNotFound\<close>; one that is address-owned or shared fails with
  \<open>ItemNotOwnedByObject\<close>; a missing wrapper fails with \<open>DynamicFieldKeyNotFound\<close> and
  a wrapper that is address-owned or shared with \<open>DynamicFieldKeyNotOwnedByObject\<close>. Each
  of these errors carries the id of the item and no other id, also at the second hop,
  where the wrapper is described as the dynamic field key of that item. No failure returns
  a kiosk id, and a purchase that sends a block has resolved a kiosk id and has looked the
  listing up in that kiosk.
\<close>

theorem resolveKiosk_two_hops:
  assumes "\<not> truthy k"
  shows "(purchaseItem_resolveKiosk l i k = (t, Inr (d, kid)) \<longleftrightarrow>
            (\<exists>r w rk kd. rpc_getObject l i = Some r \<and> found r = Some d \<and> owner d = ObjectOwner w
               \<and> rpc_getObject l w = Some rk \<and> found rk = Some kd \<and> owner kd = ObjectOwner kid
               \<and> t = [GetObject i, GetObject w]))
       \<and> (rpc_getObject l i = Some r \<and> found r = None
            \<longrightarrow> purchaseItem_resolveKiosk l i k = ([GetObject i], Inl (ItemNotFound i)))
       \<and> (rpc_getObject l i = Some r \<and> found r = Some d'
              \<and> (owner d' = AddressOwner a \<or> owner d' = Shared)
            \<longrightarrow> purchaseItem_resolveKiosk l i k = ([GetObject i], Inl (ItemNotOwnedByObject i)))
       \<and> (rpc_getObject l i = Some r \<and> found r = Some d' \<and> owner d' = ObjectOwner w'
            \<and> rpc_getObject l w' = Some rk' \<and> found rk' = None
            \<longrightarrow> purchaseItem_resolveKiosk l i k
                  = ([GetObject i, GetObject w'], Inl (DynamicFieldKeyNotFound i)))
       \<and> (rpc_getObject l i = Some r \<and> found r = Some d' \<and> owner d' = ObjectOwner w'
            \<and> rpc_getObject l w' = Some rk' \<and> found rk' = Some kd'
            \<and> (owner kd' = AddressOwner a \<or> owner kd' = Shared)
            \<longrightarrow> purchaseItem_resolveKiosk l i k
                  = ([GetObject i, GetObject w'], Inl (DynamicFieldKeyNotOwnedByObject i)))
       \<and> (snd (purchaseItem_resolveKiosk l i k) = Inl e
            \<longrightarrow> e = RpcFailure \<or> e = TypeError \<or> error_ids e = [i])
       \<and> (k = opt_kiosk opts \<and> snd (purchaseItem l i opts) = Inr tx
            \<longrightarrow> (\<exists>t d kid. purchaseItem_resolveKiosk l i k = (t, Inr (d, kid))
                   \<and> GetDynamicFieldObject kid i \<in> set (fst (purchaseItem l i opts))))"
proof -
  have 1: "(purchaseItem_resolveKiosk l i k = (t, Inr (d, kid)) \<longleftrightarrow>
            (\<exists>r w rk kd. rpc_getObject l i = Some r \<and> found r = Some d \<and> owner d = ObjectOwner w
               \<and> rpc_getObject l w = Some rk \<and> found rk = Some kd \<and> owner kd = ObjectOwner kid
               \<and> t = [GetObject i, GetObject w]))
       \<and> (rpc_getObject l i = Some r \<and> found r = None
            \<longrightarrow> purchaseItem_resolveKiosk l i k = ([GetObject i], Inl (ItemNotFound i)))
       \<and> (rpc_getObject l i = Some r \<and> found r = Some d'
              \<and> (owner d' = AddressOwner a \<or> owner d' = Shared)
            \<longrightarrow> purchaseItem_resolveKiosk l i k = ([GetObject i], Inl (ItemNotOwnedByObject i)))
       \<and> (rpc_getObject l i = Some r \<and> found r = Some d' \<and> owner d' = ObjectOwner w'
            \<and> rpc_getObject l w' = Some rk' \<and> found rk' = None
            \<longrightarrow> purchaseItem_resolveKiosk l i k
                  = ([GetObject i, GetObject w'], Inl (DynamicFieldKeyNotFound i)))
       \<and> (rpc_getObject l i = Some r \<and> found r = Some d' \<and> owner d' = ObjectOwner w'
            \<and> rpc_getObject l w' = Some rk' \<and> found rk' = Some kd'
            \<and> (owner kd' = AddressOwner a \<or> owner kd' = Shared)
            \<longrightarrow> purchaseItem_resolveKiosk l i k
                  = ([GetObject i, GetObject w'], Inl (DynamicFieldKeyNotOwnedByObject i)))"
    using assms
    by (auto simp: purchaseItem_resolveKiosk_def io_defs
          split: option.splits sum.splits prod.splits owner.splits if_splits)
  have 2: "snd (purchaseItem_resolveKiosk l i k) = Inl e
            \<longrightarrow> e = RpcFailure \<or> e = TypeError \<or> error_ids e = [i]"
    using resolveKiosk_errors_aux [of l i k e] by auto
  have 3: "k = opt_kiosk opts \<and> snd (purchaseItem l i opts) = Inr tx
            \<longrightarrow> (\<exists>t d kid. purchaseItem_resolveKiosk l i k = (t, Inr (d, kid))
                   \<and> GetDynamicFieldObject kid i \<in> set (fst (purchaseItem l i opts)))"
  proof
    assume a: "k = opt_kiosk opts \<and> snd (purchaseItem l i opts) = Inr tx"
    then obtain t1 d kid t2 kiosk policies listing where
        r: "purchaseItem_resolveKiosk l i (opt_kiosk opts) = (t1, Inr (d, kid))"
      and f: "purchaseItem_fetch l i d kid = (t2, Inr (kiosk, policies, listing))"
      and t: "fst (purchaseItem l i opts)
             = t1 @ t2 @ fst (purchaseItem_assemble l opts d kiosk policies listing)"
      using purchaseItem_success [of l i opts tx] by blast
    from f have "t2 = [GetObject kid, QueryTransferPolicy (otype d), GetDynamicFieldObject kid i]"
      using fetch_trace [of l i d kid] by simp
    with r t a show "\<exists>t d kid. purchaseItem_resolveKiosk l i k = (t, Inr (d, kid))
                   \<and> GetDynamicFieldObject kid i \<in> set (fst (purchaseItem l i opts))"
      by auto
  qed
  from 1 2 3 show ?thesis
    apply -
    apply (erule conjE)+
    apply (intro conjI)
    apply assumption+
    done
qed

text \<open>The statement at the sample ledger.\<close>

theorem resolveKiosk_two_hops_witness:
  "purchaseItem_resolveKiosk demo_ledger ''0xI'' None
     = ([GetObject ''0xI'', GetObject ''0xW''], Inr (demo_item, ''0xK''))
   \<and> purchaseItem_resolveKiosk demo_ledger ''0xM'' None
     = ([GetObject ''0xM''], Inl (ItemNotOwnedByObject ''0xM''))
   \<and> purchaseItem_resolveKiosk missing_wrapper_ledger ''0xI'' None
     = ([GetObject ''0xI'', GetObject ''0xW''], Inl (DynamicFieldKeyNotFound ''0xI''))"
proof -
  have k: "\<not> truthy None" by simp
  have i: "rpc_getObject demo_ledger ''0xI'' = Some \<lparr>error = None, data = Some demo_item\<rparr>"
    and w: "rpc_getObject demo_ledger ''0xW'' = Some \<lparr>error = None, data = Some demo_key\<rparr>"
    and m: "rpc_getObject demo_ledger ''0xM'' = Some \<lparr>error = None, data = Some demo_owned\<rparr>"
    and i': "rpc_getObject missing_wrapper_ledger ''0xI'' = Some \<lparr>error = None, data = Some demo_item\<rparr>"
    and w': "rpc_getObject missing_wrapper_ledger ''0xW'' = Some \<lparr>error = Some ''notExists'', data = None\<rparr>"
    by (simp_all add: missing_wrapper_ledger_def demo_ledger_def present_def absent_def)
  have f: "found \<lparr>error = None, data = Some d\<rparr> = Some d"
    "found \<lparr>error = Some ''notExists'', data = None\<rparr> = None" for d
    by (simp_all add: found_def)
  have o: "owner demo_item = ObjectOwner ''0xW''" "owner demo_key = ObjectOwner ''0xK''"
    "owner demo_owned = AddressOwner ''0xA''"
    by (simp_all add: demo_item_def demo_key_def demo_owned_def)
  note h = resolveKiosk_two_hops [OF k]
  have 1: "purchaseItem_resolveKiosk demo_ledger ''0xI'' None
     = ([GetObject ''0xI'', GetObject ''0xW''], Inr (demo_item, ''0xK''))"
    using h [where l = demo_ledger and i = "''0xI''" and t = "[GetObject ''0xI'', GetObject ''0xW'']"
                and d = demo_item and kid = "''0xK''"]
      i w f o by auto
  have 2: "purchaseItem_resolveKiosk demo_ledger ''0xM'' None
     = ([GetObject ''0xM''], Inl (ItemNotOwnedByObject ''0xM''))"
    using h [where l = demo_ledger and i = "''0xM''"
                and r = "\<lparr>error = None, data = Some demo_owned\<rparr>" and d' = demo_owned
                and a = "''0xA''"]
      m f o by auto
  have 3: "purchaseItem_resolveKiosk missing_wrapper_ledger ''0xI'' None
     = ([GetObject ''0xI'', GetObject ''0xW''], Inl (DynamicFieldKeyNotFound ''0xI''))"
    using h [where l = missing_wrapper_ledger and i = "''0xI''"
                and r = "\<lparr>error = None, data = Some demo_item\<rparr>" and d' = demo_item
                and w' = "''0xW''" and rk' = "\<lparr>error = Some ''notExists'', data = None\<rparr>"]
      i' w' f o by auto
  from 1 2 3 show ?thesis by simp
qed

text \<open>
  The claim as first stated fails: the wrapper \<open>0xW\<close> of the item \<open>0xI\<close> is missing,
  and the error names the item \<open>0xI\<close>, not the wrapper.
\<close>

theorem resolveKiosk_counterexample:
  "rpc_getObject missing_wrapper_ledger ''0xW'' = absent
   \<and> purchaseItem_resolveKiosk missing_wrapper_ledger ''0xI'' None
     = ([GetObject ''0xI'', GetObject ''0xW''], Inl (DynamicFieldKeyNotFound ''0xI''))
   \<and> ''0xW'' \<notin> set (error_ids (DynamicFieldKeyNotFound ''0xI''))"
  by (simp add: run_defs demo_defs)

subsection \<open>The last command of a purchase\<close>

text \<open>
  Claim C2, as amended. Let \<open>purchaseAndResolvePolicies\<close> be the rule engine
  \<open>resolveRules\<close>. When the purchase reaches rule resolution and the answer is
  \<open>canTransfer = false\<close>, the block handed to \<open>sendTx\<close> holds exactly the commands rule
  resolution produced: \<open>purchaseItem\<close> appends nothing after them. Among them is the lock
  of the purchased item into the caller's own kiosk, with the caller's capability and
  under the selected policy; none of them is a transfer of objects or a placement. The
  lock need not be the last command: the actions follow the order of the rules.
\<close>

theorem locked_purchase_sent_as_resolved:
  assumes "snd (purchaseItem_validate l i opts) = Inr ()"
    and "purchaseItem_resolveKiosk l i (opt_kiosk opts) = (t1, Inr (d, kid))"
    and "purchaseItem_fetch l i d kid = (t2, Inr (kiosk, policies, listing))"
    and "catch_null (findKioskCap l None) = (t3, Inr (Some cap))"
    and "purchaseAndResolvePolicies l = resolveRules known"
    and "resolveRules known (purchase_request opts d kiosk policies listing cap)
           = Some (ops, item, False)"
  shows "purchaseItem l i opts = (t1 @ t2 @ NewTransactionBlock # t3, Inr ops)
       \<and> (\<exists>p. first_policy policies = Some p
              \<and> KioskLock (otype d) (RawId (cap_kioskId cap)) (RawId (cap_objectId cap))
                   (TxObject (policy_id p)) item \<in> set ops)
       \<and> (\<forall>items receiver. TransferObjects items receiver \<notin> set ops)
       \<and> (\<forall>ty k c it. KioskPlace ty k c it \<notin> set ops)"
proof -
  let ?req = "purchase_request opts d kiosk policies listing cap"
  have p: "purchaseAndResolvePolicies l ?req = Some (ops, item, False)"
    using assms(5,6) by simp
  have 1: "purchaseItem l i opts = (t1 @ t2 @ NewTransactionBlock # t3, Inr ops)"
    by (simp add: purchaseItem_reaches_assemble [OF assms(1,2,3)] assemble_resolved [OF assms(4) p])
  from resolveRules_locked [OF assms(6)] obtain p where
      rp: "req_policy ?req = Some p" and it: "item = TxResult 0"
    and lk: "kioskLockAction ?req p \<in> set ops"
    and sub: "set ops \<subseteq> {MoveCall ''kiosk::purchase''
                            [req_kiosk ?req, RawId (req_itemId ?req), TxPure (req_price ?req)],
                          royaltyAction ?req p, kioskLockAction ?req p}"
    by blast
  have 2: "\<exists>p. first_policy policies = Some p
              \<and> KioskLock (otype d) (RawId (cap_kioskId cap)) (RawId (cap_objectId cap))
                   (TxObject (policy_id p)) item \<in> set ops"
    using rp it lk by (auto simp: purchase_request_def kioskLockAction_def)
  have 3: "\<forall>items receiver. TransferObjects items receiver \<notin> set ops"
    using sub by (auto simp: royaltyAction_def kioskLockAction_def)
  have 4: "\<forall>ty k c it. KioskPlace ty k c it \<notin> set ops"
    using sub by (auto simp: royaltyAction_def kioskLockAction_def)
  from 1 2 3 4 show ?thesis by blast
qed

text \<open>The statement at the sample ledger.\<close>

theorem locked_purchase_sent_as_resolved_witness:
  "purchaseItem locking_ledger ''0xI'' plain_opts
     = ([GetObject ''0xI'', GetObject ''0xW'', GetObject ''0xK'',
         QueryTransferPolicy ''0xP::nft::Nft'', GetDynamicFieldObject ''0xK'' ''0xI'',
         NewTransactionBlock, GetOwnedKiosks ''0xA''],
        Inr [MoveCall ''kiosk::purchase'' [TxObject ''0xK'', RawId ''0xI'', TxPure ''1000''],
             KioskLock ''0xP::nft::Nft'' (RawId ''0xH'') (RawId ''0xC'') (TxObject ''0xU'')
               (TxResult 0)])"
proof -
  have v: "snd (purchaseItem_validate locking_ledger ''0xI'' plain_opts) = Inr ()"
    by (rule demo_validate) (simp_all add: locking_ledger_def plain_opts_def)
  have r: "purchaseItem_resolveKiosk locking_ledger ''0xI'' (opt_kiosk plain_opts)
             = ([GetObject ''0xI'', GetObject ''0xW''], Inr (demo_item, ''0xK''))"
    by (simp add: plain_opts_def demo_resolve locking_ledger_def)
  have f: "purchaseItem_fetch locking_ledger ''0xI'' demo_item ''0xK''
     = ([GetObject ''0xK'', QueryTransferPolicy ''0xP::nft::Nft'', GetDynamicFieldObject ''0xK'' ''0xI''],
        Inr (demo_kiosk, [lock_policy, royalty_policy], demo_listing))"
    by (rule demo_fetch) (simp_all add: locking_ledger_def)
  have c: "catch_null (findKioskCap locking_ledger None)
             = ([GetOwnedKiosks ''0xA''], Inr (Some demo_cap))"
    by (rule demo_cap_lookup) (simp_all add: locking_ledger_def demo_ledger_def)
  have s: "purchaseAndResolvePolicies locking_ledger = resolveRules demo_rules"
    by (simp add: locking_ledger_def demo_ledger_def)
  have p: "resolveRules demo_rules
             (purchase_request plain_opts demo_item demo_kiosk [lock_policy, royalty_policy]
                demo_listing demo_cap)
           = Some ([MoveCall ''kiosk::purchase'' [TxObject ''0xK'', RawId ''0xI'', TxPure ''1000''],
                    KioskLock ''0xP::nft::Nft'' (RawId ''0xH'') (RawId ''0xC'') (TxObject ''0xU'')
                      (TxResult 0)], TxResult 0, False)"
    by (simp add: purchase_request_def rule_defs demo_rules_def plain_opts_def demo_item_def
          demo_kiosk_def demo_listing_def demo_cap_def lock_policy_def)
  show ?thesis
    using locked_purchase_sent_as_resolved [OF v r f c s p] by simp
qed

text \<open>
  The claim as first stated fails: for a policy whose rules are the kiosk-lock rule
  followed by the royalty rule, \<open>canTransfer\<close> is false and the block that is sent ends
  with the operation of the royalty rule, not with the lock.
\<close>

theorem locked_purchase_counterexample:
  "resolveRules demo_rules
     (purchase_request plain_opts demo_item demo_kiosk [lock_royalty_policy] demo_listing demo_cap)
     = Some ([MoveCall ''kiosk::purchase'' [TxObject ''0xK'', RawId ''0xI'', TxPure ''1000''],
              KioskLock ''0xP::nft::Nft'' (RawId ''0xH'') (RawId ''0xC'') (TxObject ''0xV'')
                (TxResult 0),
              MoveCall ''royalty_rule::confirm'' [TxObject ''0xV'', TxResult 0, TxPure ''1000'']],
             TxResult 0, False)
   \<and> purchaseItem lock_first_ledger ''0xI'' plain_opts
     = ([GetObject ''0xI'', GetObject ''0xW'', GetObject ''0xK'',
         QueryTransferPolicy ''0xP::nft::Nft'', GetDynamicFieldObject ''0xK'' ''0xI'',
         NewTransactionBlock, GetOwnedKiosks ''0xA''],
        Inr [MoveCall ''kiosk::purchase'' [TxObject ''0xK'', RawId ''0xI'', TxPure ''1000''],
             KioskLock ''0xP::nft::Nft'' (RawId ''0xH'') (RawId ''0xC'') (TxObject ''0xV'')
               (TxResult 0),
             MoveCall ''royalty_rule::confirm'' [TxObject ''0xV'', TxResult 0, TxPure ''1000'']])"
  by (simp add: run_defs rule_defs demo_defs)

text \<open>
  Claim C3. When rule resolution answers \<open>canTransfer = true\<close>, the block that is sent is
  the commands of rule resolution followed by exactly one more: a placement of the item
  into the caller's own kiosk when the target is \<open>kiosk\<close>; a transfer of the item to the
  target when the target is any other non-empty address; a transfer of the item to the
  caller's own address when no target (or the empty string) is given.
\<close>

theorem transferable_purchase_destination:
  assumes "snd (purchaseItem_validate l i opts) = Inr ()"
    and "purchaseItem_resolveKiosk l i (opt_kiosk opts) = (t1, Inr (d, kid))"
    and "purchaseItem_fetch l i d kid = (t2, Inr (kiosk, policies, listing))"
    and "catch_null (findKioskCap l None) = (t3, Inr (Some cap))"
    and "purchaseAndResolvePolicies l (purchase_request opts d kiosk policies listing cap)
           = Some (ops, item, True)"
  shows "(opt_target opts = Some ''kiosk'' \<longrightarrow>
            purchaseItem l i opts =
              (t1 @ t2 @ NewTransactionBlock # t3,
               Inr (ops @ [KioskPlace (otype d) (RawId (cap_kioskId cap))
                             (RawId (cap_objectId cap)) item])))
       \<and> (opt_target opts = Some a \<and> a \<noteq> [] \<and> a \<noteq> ''kiosk'' \<longrightarrow>
            purchaseItem l i opts =
              (t1 @ t2 @ NewTransactionBlock # t3,
               Inr (ops @ [TransferObjects [item] (TxPure a)])))
       \<and> (opt_target opts = None \<or> opt_target opts = Some [] \<longrightarrow>
            purchaseItem l i opts =
              (t1 @ t2 @ NewTransactionBlock # t3,
               Inr (ops @ [TransferObjects [item] (TxPure (signer_address l))])))"
  by (auto simp: purchaseItem_reaches_assemble [OF assms(1,2,3)] assemble_resolved [OF assms(4,5)])

text \<open>The statement at the sample ledger.\<close>

theorem transferable_purchase_destination_witness:
  "purchaseItem demo_ledger ''0xI'' plain_opts
     = ([GetObject ''0xI'', GetObject ''0xW'', GetObject ''0xK'',
         QueryTransferPolicy ''0xP::nft::Nft'', GetDynamicFieldObject ''0xK'' ''0xI'',
         NewTransactionBlock, GetOwnedKiosks ''0xA''],
        Inr [MoveCall ''kiosk::purchase'' [TxObject ''0xK'', RawId ''0xI'', TxPure ''1000''],
             MoveCall ''royalty_rule::confirm'' [TxObject ''0xT'', TxResult 0, TxPure ''1000''],
             TransferObjects [TxResult 0] (TxPure ''0xA'')])
   \<and> purchaseItem demo_ledger ''0xI'' (plain_opts\<lparr>opt_target := Some ''0xB''\<rparr>)
     = ([GetObject ''0xI'', GetObject ''0xW'', GetObject ''0xK'',
         QueryTransferPolicy ''0xP::nft::Nft'', GetDynamicFieldObject ''0xK'' ''0xI'',
         NewTransactionBlock, GetOwnedKiosks ''0xA''],
        Inr [MoveCall ''kiosk::purchase'' [TxObject ''0xK'', RawId ''0xI'', TxPure ''1000''],
             MoveCall ''royalty_rule::confirm'' [TxObject ''0xT'', TxResult 0, TxPure ''1000''],
             TransferObjects [TxResult 0] (TxPure ''0xB'')])
   \<and> purchaseItem demo_ledger ''0xI'' (plain_opts\<lparr>opt_target := Some ''kiosk''\<rparr>)
     = ([GetObject ''0xI'', GetObject ''0xW'', GetObject ''0xK'',
         QueryTransferPolicy ''0xP::nft::Nft'', GetDynamicFieldObject ''0xK'' ''0xI'',
         NewTransactionBlock, GetOwnedKiosks ''0xA''],
        Inr [MoveCall ''kiosk::purchase'' [TxObject ''0xK'', RawId ''0xI'', TxPure ''1000''],
             MoveCall ''royalty_rule::confirm'' [TxObject ''0xT'', TxResult 0, TxPure ''1000''],
             KioskPlace ''0xP::nft::Nft'' (RawId ''0xH'') (RawId ''0xC'') (TxResult 0)])"
proof -
  let ?ops = "[MoveCall ''kiosk::purchase'' [TxObject ''0xK'', RawId ''0xI'', TxPure ''1000''],
              MoveCall ''royalty_rule::confirm'' [TxObject ''0xT'', TxResult 0, TxPure ''1000'']]"
  have v: "snd (purchaseItem_validate demo_ledger ''0xI'' (plain_opts\<lparr>opt_target := tg\<rparr>)) = Inr ()"
    if "tg = None \<or> tg = Some ''kiosk'' \<or> tg = Some ''0xB''" for tg
    using that by (intro demo_validate) (auto simp: plain_opts_def)
  have r: "purchaseItem_resolveKiosk demo_ledger ''0xI'' (opt_kiosk (plain_opts\<lparr>opt_target := tg\<rparr>))
             = ([GetObject ''0xI'', GetObject ''0xW''], Inr (demo_item, ''0xK''))" for tg
    by (simp add: demo_resolve plain_opts_def)
  have f: "purchaseItem_fetch demo_ledger ''0xI'' demo_item ''0xK''
     = ([GetObject ''0xK'', QueryTransferPolicy ''0xP::nft::Nft'', GetDynamicFieldObject ''0xK'' ''0xI''],
        Inr (demo_kiosk, [royalty_policy, lock_policy], demo_listing))"
    by (rule demo_fetch) (simp_all add: demo_ledger_def)
  have c: "catch_null (findKioskCap demo_ledger None)
             = ([GetOwnedKiosks ''0xA''], Inr (Some demo_cap))"
    by (rule demo_cap_lookup) (simp_all add: demo_ledger_def)
  have p: "purchaseAndResolvePolicies demo_ledger
             (purchase_request (plain_opts\<lparr>opt_target := tg\<rparr>) demo_item demo_kiosk
                [royalty_policy, lock_policy] demo_listing demo_cap)
           = Some (?ops, TxResult 0, True)" for tg
    by (simp add: purchase_request_def rule_defs demo_rules_def plain_opts_def demo_ledger_def
          demo_item_def demo_kiosk_def demo_listing_def demo_cap_def royalty_policy_def)
  have s: "signer_address demo_ledger = ''0xA''" "otype demo_item = ''0xP::nft::Nft''"
    "cap_kioskId demo_cap = ''0xH''" "cap_objectId demo_cap = ''0xC''"
    by (simp_all add: demo_ledger_def demo_item_def demo_cap_def)
  have e: "plain_opts\<lparr>opt_target := None\<rparr> = plain_opts" "opt_target plain_opts = None"
    by (simp_all add: plain_opts_def)
  have 1: "purchaseItem demo_ledger ''0xI'' plain_opts
     = ([GetObject ''0xI'', GetObject ''0xW'', GetObject ''0xK'',
         QueryTransferPolicy ''0xP::nft::Nft'', GetDynamicFieldObject ''0xK'' ''0xI'',
         NewTransactionBlock, GetOwnedKiosks ''0xA''],
        Inr (?ops @ [TransferObjects [TxResult 0] (TxPure ''0xA'')]))"
    using transferable_purchase_destination
        [OF v [of None] r [of None] f c p [of None], where a = "[]"] s e
    by simp
  have 2: "purchaseItem demo_ledger ''0xI'' (plain_opts\<lparr>opt_target := Some ''0xB''\<rparr>)
     = ([GetObject ''0xI'', GetObject ''0xW'', GetObject ''0xK'',
         QueryTransferPolicy ''0xP::nft::Nft'', GetDynamicFieldObject ''0xK'' ''0xI'',
         NewTransactionBlock, GetOwnedKiosks ''0xA''],
        Inr (?ops @ [TransferObjects [TxResult 0] (TxPure ''0xB'')]))"
    using transferable_purchase_destination
        [OF v [of "Some ''0xB''"] r [of "Some ''0xB''"] f c p [of "Some ''0xB''"],
         where a = "''0xB''"] s
    by simp
  have 3: "purchaseItem demo_ledger ''0xI'' (plain_opts\<lparr>opt_target := Some ''kiosk''\<rparr>)
     = ([GetObject ''0xI'', GetObject ''0xW'', GetObject ''0xK'',
         QueryTransferPolicy ''0xP::nft::Nft'', GetDynamicFieldObject ''0xK'' ''0xI'',
         NewTransactionBlock, GetOwnedKiosks ''0xA''],
        Inr (?ops @ [KioskPlace ''0xP::nft::Nft'' (RawId ''0xH'') (RawId ''0xC'') (TxResult 0)]))"
    using transferable_purchase_destination
        [OF v [of "Some ''kiosk''"] r [of "Some ''kiosk''"] f c p [of "Some ''kiosk''"],
         where a = "[]"] s
    by simp
  from 1 2 3 show ?thesis by simp
qed

subsection \<open>Purchases and locks that must not build a transaction\<close>

text \<open>
  Claim C4, as amended. Let the policy query for the item's type answer with the empty
  list. A purchase that has passed the input checks and resolved its kiosk issues the
  kiosk, policy and listing reads together and then fails: with the not-listed error when
  the listing is missing, else with the kiosk-not-found error when the kiosk is missing,
  else with the no-policy error. A lock by a caller who holds a capability and owns the
  item fails with the no-policy error right after the policy query. In every case, also
  when an earlier check fails, purchase and lock fail without constructing a block.
\<close>

theorem no_policy_no_transaction:
  "(snd (purchaseItem_validate l i opts) = Inr ()
      \<and> purchaseItem_resolveKiosk l i (opt_kiosk opts) = (t1, Inr (d, kid))
      \<and> rpc_queryTransferPolicy l (otype d) = Some []
      \<and> rpc_getObject l kid = Some rk \<and> rpc_getDynamicFieldObject l kid i = Some rl
     \<longrightarrow> purchaseItem l i opts =
           (t1 @ [GetObject kid, QueryTransferPolicy (otype d), GetDynamicFieldObject kid i],
            Inl (if found rl = None then ItemNotListed i kid
                 else if found rk = None then KioskNotFound kid
                 else NoTransferPolicy (otype d))))
   \<and> (isValidSuiAddress l (signer_address l)
      \<and> rpc_getOwnedKiosks l (signer_address l) = Some (c # cs)
      \<and> isValidSuiObjectId l i
      \<and> rpc_getObject l i = Some r \<and> found r = Some d
      \<and> owner d = AddressOwner (signer_address l)
      \<and> rpc_queryTransferPolicy l (otype d) = Some []
     \<longrightarrow> lockItem l i =
           ([GetOwnedKiosks (signer_address l), GetObject i, QueryTransferPolicy (otype d)],
            Inl (ItemHasNoTransferPolicy i (otype d))))
   \<and> (rpc_queryTransferPolicy l (otype d) = Some []
     \<longrightarrow> (\<exists>e. purchaseItem_fetch l i d kid =
                 ([GetObject kid, QueryTransferPolicy (otype d), GetDynamicFieldObject kid i], Inl e)
              \<and> (e = NoTransferPolicy (otype d) \<longleftrightarrow>
                   (\<exists>rk rl. rpc_getObject l kid = Some rk \<and> found rk \<noteq> None
                      \<and> rpc_getDynamicFieldObject l kid i = Some rl \<and> found rl \<noteq> None))))
   \<and> ((\<forall>r d. rpc_getObject l i = Some r \<and> found r = Some d
             \<longrightarrow> rpc_queryTransferPolicy l (otype d) = Some [])
     \<longrightarrow> (\<exists>t e. purchaseItem l i opts = (t, Inl e) \<and> NewTransactionBlock \<notin> set t)
       \<and> (\<exists>t e. lockItem l i = (t, Inl e) \<and> NewTransactionBlock \<notin> set t
             \<and> (\<forall>ty. QueryTransferPolicy ty \<in> set t \<longrightarrow> e = ItemHasNoTransferPolicy i ty)))"
proof (intro conjI impI)
  assume a: "snd (purchaseItem_validate l i opts) = Inr ()
      \<and> purchaseItem_resolveKiosk l i (opt_kiosk opts) = (t1, Inr (d, kid))
      \<and> rpc_queryTransferPolicy l (otype d) = Some []
      \<and> rpc_getObject l kid = Some rk \<and> rpc_getDynamicFieldObject l kid i = Some rl"
  then have f: "purchaseItem_fetch l i d kid =
           ([GetObject kid, QueryTransferPolicy (otype d), GetDynamicFieldObject kid i],
            Inl (if found rl = None then ItemNotListed i kid
                 else if found rk = None then KioskNotFound kid
                 else NoTransferPolicy (otype d)))"
    by (auto simp: fetch_answered [of l kid rk d "[]" i rl])
  from a have v: "snd (purchaseItem_validate l i opts) = Inr ()"
    and r: "purchaseItem_resolveKiosk l i (opt_kiosk opts) = (t1, Inr (d, kid))"
    by simp_all
  show "purchaseItem l i opts =
           (t1 @ [GetObject kid, QueryTransferPolicy (otype d), GetDynamicFieldObject kid i],
            Inl (if found rl = None then ItemNotListed i kid
                 else if found rk = None then KioskNotFound kid
                 else NoTransferPolicy (otype d)))"
    by (rule purchaseItem_fetch_error [OF v r f])
next
  assume a: "isValidSuiAddress l (signer_address l)
      \<and> rpc_getOwnedKiosks l (signer_address l) = Some (c # cs)
      \<and> isValidSuiObjectId l i
      \<and> rpc_getObject l i = Some r \<and> found r = Some d
      \<and> owner d = AddressOwner (signer_address l)
      \<and> rpc_queryTransferPolicy l (otype d) = Some []"
  then have cap: "catch_null (findKioskCap l None)
                    = ([GetOwnedKiosks (signer_address l)], Inr (Some c))"
    by (simp add: findKioskCap_lookup)
  show "lockItem l i =
           ([GetOwnedKiosks (signer_address l), GetObject i, QueryTransferPolicy (otype d)],
            Inl (ItemHasNoTransferPolicy i (otype d)))"
    using a
    by (simp add: lockItem_def cap bind_io_Inr Let_def getObject_def queryTransferPolicy_def
          await_def throw_io_def)
next
  assume "rpc_queryTransferPolicy l (otype d) = Some []"
  then show "\<exists>e. purchaseItem_fetch l i d kid =
                 ([GetObject kid, QueryTransferPolicy (otype d), GetDynamicFieldObject kid i], Inl e)
              \<and> (e = NoTransferPolicy (otype d) \<longleftrightarrow>
                   (\<exists>rk rl. rpc_getObject l kid = Some rk \<and> found rk \<noteq> None
                      \<and> rpc_getDynamicFieldObject l kid i = Some rl \<and> found rl \<noteq> None))"
    by (rule fetch_no_policy)
next
  assume a: "\<forall>r d. rpc_getObject l i = Some r \<and> found r = Some d
             \<longrightarrow> rpc_queryTransferPolicy l (otype d) = Some []"
  show "\<exists>t e. purchaseItem l i opts = (t, Inl e) \<and> NewTransactionBlock \<notin> set t"
    by (rule purchase_no_policy [OF a])
  show "\<exists>t e. lockItem l i = (t, Inl e) \<and> NewTransactionBlock \<notin> set t
             \<and> (\<forall>ty. QueryTransferPolicy ty \<in> set t \<longrightarrow> e = ItemHasNoTransferPolicy i ty)"
    by (rule lock_no_policy [OF a])
qed

text \<open>The statement at the sample ledger.\<close>

theorem no_policy_no_transaction_witness:
  "purchaseItem no_policy_ledger ''0xI'' plain_opts
     = ([GetObject ''0xI'', GetObject ''0xW'', GetObject ''0xK'',
         QueryTransferPolicy ''0xP::nft::Nft'', GetDynamicFieldObject ''0xK'' ''0xI''],
        Inl (NoTransferPolicy ''0xP::nft::Nft''))
   \<and> purchaseItem unlisted_ledger ''0xI'' plain_opts
     = ([GetObject ''0xI'', GetObject ''0xW'', GetObject ''0xK'',
         QueryTransferPolicy ''0xP::nft::Nft'', GetDynamicFieldObject ''0xK'' ''0xI''],
        Inl (ItemNotListed ''0xI'' ''0xK''))
   \<and> lockItem no_policy_ledger ''0xM''
     = ([GetOwnedKiosks ''0xA'', GetObject ''0xM'', QueryTransferPolicy ''0xP::nft::Nft''],
        Inl (ItemHasNoTransferPolicy ''0xM'' ''0xP::nft::Nft''))
   \<and> (\<exists>t e. purchaseItem no_policy_ledger ''0xM'' plain_opts = (t, Inl e)
          \<and> NewTransactionBlock \<notin> set t)"
proof -
  have v: "snd (purchaseItem_validate l ''0xI'' plain_opts) = Inr ()"
    if "l = no_policy_ledger \<or> l = unlisted_ledger" for l
    using that
    by (intro demo_validate)
       (auto simp: no_policy_ledger_def unlisted_ledger_def plain_opts_def)
  have r: "purchaseItem_resolveKiosk l ''0xI'' (opt_kiosk plain_opts)
             = ([GetObject ''0xI'', GetObject ''0xW''], Inr (demo_item, ''0xK''))"
    if "l = no_policy_ledger \<or> l = unlisted_ledger" for l
    using that
    by (auto simp: plain_opts_def demo_resolve no_policy_ledger_def unlisted_ledger_def)
  have t: "otype demo_item = ''0xP::nft::Nft''" "otype demo_owned = ''0xP::nft::Nft''"
    by (simp_all add: demo_item_def demo_owned_def)
  have q: "rpc_queryTransferPolicy no_policy_ledger ty = Some []"
    "rpc_queryTransferPolicy unlisted_ledger ty = Some []" for ty
    by (simp_all add: no_policy_ledger_def unlisted_ledger_def)
  have k: "rpc_getObject no_policy_ledger ''0xK'' = Some \<lparr>error = None, data = Some demo_kiosk\<rparr>"
    "rpc_getObject unlisted_ledger ''0xK'' = Some \<lparr>error = None, data = Some demo_kiosk\<rparr>"
    "rpc_getDynamicFieldObject no_policy_ledger ''0xK'' ''0xI''
       = Some \<lparr>error = None, data = Some demo_listing\<rparr>"
    "rpc_getDynamicFieldObject unlisted_ledger ''0xK'' ''0xI''
       = Some \<lparr>error = Some ''notExists'', data = None\<rparr>"
    "rpc_getObject no_policy_ledger ''0xM'' = Some \<lparr>error = None, data = Some demo_owned\<rparr>"
    by (simp_all add: no_policy_ledger_def unlisted_ledger_def demo_ledger_def present_def absent_def)
  have f: "found \<lparr>error = None, data = Some d\<rparr> = Some d"
    "found \<lparr>error = Some ''notExists'', data = None\<rparr> = None" for d
    by (simp_all add: found_def)
  have s: "signer_address no_policy_ledger = ''0xA''"
    "isValidSuiAddress no_policy_ledger ''0xA''" "isValidSuiObjectId no_policy_ledger ''0xM''"
    "rpc_getOwnedKiosks no_policy_ledger ''0xA'' = Some (demo_cap # [demo_cap2])"
    "owner demo_owned = AddressOwner ''0xA''"
    by (simp_all add: no_policy_ledger_def demo_ledger_def demo_owned_def)
  have 1: "purchaseItem no_policy_ledger ''0xI'' plain_opts
     = ([GetObject ''0xI'', GetObject ''0xW'', GetObject ''0xK'',
         QueryTransferPolicy ''0xP::nft::Nft'', GetDynamicFieldObject ''0xK'' ''0xI''],
        Inl (NoTransferPolicy ''0xP::nft::Nft''))"
    using no_policy_no_transaction [where l = no_policy_ledger and i = "''0xI''"
        and opts = plain_opts and ?t1.0 = "[GetObject ''0xI'', GetObject ''0xW'']"
        and d = demo_item and kid = "''0xK''"
        and rk = "\<lparr>error = None, data = Some demo_kiosk\<rparr>"
        and rl = "\<lparr>error = None, data = Some demo_listing\<rparr>"]
      v [of no_policy_ledger] r [of no_policy_ledger] t q k f
    by simp
  have 2: "purchaseItem unlisted_ledger ''0xI'' plain_opts
     = ([GetObject ''0xI'', GetObject ''0xW'', GetObject ''0xK'',
         QueryTransferPolicy ''0xP::nft::Nft'', GetDynamicFieldObject ''0xK'' ''0xI''],
        Inl (ItemNotListed ''0xI'' ''0xK''))"
    using no_policy_no_transaction [where l = unlisted_ledger and i = "''0xI''"
        and opts = plain_opts and ?t1.0 = "[GetObject ''0xI'', GetObject ''0xW'']"
        and d = demo_item and kid = "''0xK''"
        and rk = "\<lparr>error = None, data = Some demo_kiosk\<rparr>"
        and rl = "\<lparr>error = Some ''notExists'', data = None\<rparr>"]
      v [of unlisted_ledger] r [of unlisted_ledger] t q k f
    by simp
  have 3: "lockItem no_policy_ledger ''0xM''
     = ([GetOwnedKiosks ''0xA'', GetObject ''0xM'', QueryTransferPolicy ''0xP::nft::Nft''],
        Inl (ItemHasNoTransferPolicy ''0xM'' ''0xP::nft::Nft''))"
    using no_policy_no_transaction [where l = no_policy_ledger and i = "''0xM''"
        and c = demo_cap and cs = "[demo_cap2]"
        and r = "\<lparr>error = None, data = Some demo_owned\<rparr>" and d = demo_owned]
      s t q k f
    by simp
  have 4: "\<exists>t e. purchaseItem no_policy_ledger ''0xM'' plain_opts = (t, Inl e)
          \<and> NewTransactionBlock \<notin> set t"
    using no_policy_no_transaction [where l = no_policy_ledger and i = "''0xM''"
        and opts = plain_opts] q
    by blast
  from 1 2 3 4 show ?thesis by blast
qed

text \<open>
  The claim as first stated fails: the item \<open>0xI\<close> has no policy and is not listed, and
  its purchase fails with the not-listed error, not with the no-policy error.
\<close>

theorem no_policy_counterexample:
  "rpc_queryTransferPolicy unlisted_ledger ''0xP::nft::Nft'' = Some []
   \<and> purchaseItem unlisted_ledger ''0xI'' plain_opts
     = ([GetObject ''0xI'', GetObject ''0xW'', GetObject ''0xK'',
         QueryTransferPolicy ''0xP::nft::Nft'', GetDynamicFieldObject ''0xK'' ''0xI''],
        Inl (ItemNotListed ''0xI'' ''0xK''))"
  by (simp add: run_defs demo_defs)

text \<open>
  Claim C5. When the inputs are well-formed, the kiosk has been resolved and the listing
  of the item in that kiosk does not exist (the response has an error or no data, or the
  call rejects), the purchase fails right after the three concurrent reads, with the
  not-listed error or the rejection, and no block is constructed.
\<close>

theorem missing_listing_no_transaction:
  assumes "snd (purchaseItem_validate l i opts) = Inr ()"
    and "purchaseItem_resolveKiosk l i (opt_kiosk opts) = (t1, Inr (d, kid))"
    and "\<forall>r. rpc_getDynamicFieldObject l kid i = Some r \<longrightarrow> found r = None"
  shows "\<exists>e. purchaseItem l i opts =
               (t1 @ [GetObject kid, QueryTransferPolicy (otype d), GetDynamicFieldObject kid i],
                Inl e)
            \<and> e \<in> {ItemNotListed i kid, RpcFailure}
            \<and> NewTransactionBlock \<notin> set (fst (purchaseItem l i opts))"
proof -
  have f: "\<exists>e. purchaseItem_fetch l i d kid =
               ([GetObject kid, QueryTransferPolicy (otype d), GetDynamicFieldObject kid i], Inl e)
            \<and> e \<in> {ItemNotListed i kid, RpcFailure}"
    using assms(3)
    by (auto simp: purchaseItem_fetch_def io_defs split: option.splits sum.splits prod.splits)
  have t1: "NewTransactionBlock \<notin> set t1"
    using resolveKiosk_trace [of l i "opt_kiosk opts"] assms(2) by simp
  from f t1 show ?thesis
    by (auto simp: purchaseItem_phases [OF assms(1,2)] bind_io_def)
qed

text \<open>The statement at the sample ledger.\<close>

theorem missing_listing_no_transaction_witness:
  "purchaseItem unlisted_ledger ''0xI'' plain_opts
     = ([GetObject ''0xI'', GetObject ''0xW'', GetObject ''0xK'',
         QueryTransferPolicy ''0xP::nft::Nft'', GetDynamicFieldObject ''0xK'' ''0xI''],
        Inl (ItemNotListed ''0xI'' ''0xK''))"
proof -
  have v: "snd (purchaseItem_validate unlisted_ledger ''0xI'' plain_opts) = Inr ()"
    by (simp add: purchaseItem_validate_def demo_defs return_io_def)
  have r: "purchaseItem_resolveKiosk unlisted_ledger ''0xI'' (opt_kiosk plain_opts)
             = ([GetObject ''0xI'', GetObject ''0xW''], Inr (demo_item, ''0xK''))"
    by (simp add: plain_opts_def demo_resolve unlisted_ledger_def no_policy_ledger_def)
  have m: "\<forall>r. rpc_getDynamicFieldObject unlisted_ledger ''0xK'' ''0xI'' = Some r \<longrightarrow> found r = None"
    by (simp add: unlisted_ledger_def absent_def found_def)
  have q: "rpc_getDynamicFieldObject unlisted_ledger ''0xK'' ''0xI'' \<noteq> None"
      "rpc_getObject unlisted_ledger ''0xK'' \<noteq> None"
      "rpc_queryTransferPolicy unlisted_ledger ''0xP::nft::Nft'' \<noteq> None"
    by (simp_all add: demo_defs)
  have t: "otype demo_item = ''0xP::nft::Nft''" by (simp add: demo_item_def)
  from missing_listing_no_transaction [OF v r m] obtain e where
    e: "purchaseItem unlisted_ledger ''0xI'' plain_opts
          = ([GetObject ''0xI'', GetObject ''0xW''] @
             [GetObject ''0xK'', QueryTransferPolicy (otype demo_item),
              GetDynamicFieldObject ''0xK'' ''0xI''], Inl e)"
    and "e \<in> {ItemNotListed ''0xI'' ''0xK'', RpcFailure}"
    by blast
  moreover have "snd (purchaseItem unlisted_ledger ''0xI'' plain_opts) \<noteq> Inl RpcFailure"
    by (simp add: run_defs demo_defs)
  ultimately show ?thesis using t by auto
qed

subsection \<open>An explicit kiosk id\<close>

text \<open>
  Claim C6, as amended. With an explicit, non-empty kiosk id the second hop is skipped: the
  only object fetched is the item, and the kiosk id is the given one whatever object owns
  the item. The first hop is not skipped: the item must be found and its owner record
  must be object-owned, else resolution fails as it does without an explicit kiosk id.
\<close>

theorem explicit_kiosk_skips_wrapper:
  assumes "k = Some s" and "s \<noteq> []"
  shows "(purchaseItem_resolveKiosk l i k = (t, Inr (d, kid)) \<longleftrightarrow>
            (\<exists>r w. rpc_getObject l i = Some r \<and> found r = Some d \<and> owner d = ObjectOwner w
               \<and> kid = s \<and> t = [GetObject i]))
       \<and> fst (purchaseItem_resolveKiosk l i k) = [GetObject i]
       \<and> (rpc_getObject l i = Some r \<and> found r = Some d' \<and> (\<forall>w. owner d' \<noteq> ObjectOwner w)
            \<longrightarrow> purchaseItem_resolveKiosk l i k
                  = ([GetObject i],
                     Inl (if owner d' = Immutable then TypeError else ItemNotOwnedByObject i)))"
  using assms
  by (auto simp: purchaseItem_resolveKiosk_def io_defs
        split: option.splits sum.splits prod.splits owner.splits if_splits)

text \<open>The statement at the sample ledger.\<close>

theorem explicit_kiosk_skips_wrapper_witness:
  "purchaseItem_resolveKiosk demo_ledger ''0xI'' (Some ''0xQ'')
     = ([GetObject ''0xI''], Inr (demo_item, ''0xQ''))
   \<and> purchaseItem_resolveKiosk demo_ledger ''0xM'' (Some ''0xQ'')
     = ([GetObject ''0xM''], Inl (ItemNotOwnedByObject ''0xM''))"
proof -
  have k: "Some ''0xQ'' = Some ''0xQ''" "''0xQ'' \<noteq> []" by simp_all
  have i: "rpc_getObject demo_ledger ''0xI'' = Some \<lparr>error = None, data = Some demo_item\<rparr>"
    and m: "rpc_getObject demo_ledger ''0xM'' = Some \<lparr>error = None, data = Some demo_owned\<rparr>"
    by (simp_all add: demo_ledger_def present_def)
  have f: "found \<lparr>error = None, data = Some d\<rparr> = Some d" for d
    by (simp add: found_def)
  have o: "owner demo_item = ObjectOwner ''0xW''" "owner demo_owned = AddressOwner ''0xA''"
    by (simp_all add: demo_item_def demo_owned_def)
  note h = explicit_kiosk_skips_wrapper [OF k, where l = demo_ledger]
  have 1: "purchaseItem_resolveKiosk demo_ledger ''0xI'' (Some ''0xQ'')
     = ([GetObject ''0xI''], Inr (demo_item, ''0xQ''))"
    using h [where i = "''0xI''" and t = "[GetObject ''0xI'']" and d = demo_item and kid = "''0xQ''"]
      i f o by auto
  have 2: "purchaseItem_resolveKiosk demo_ledger ''0xM'' (Some ''0xQ'')
     = ([GetObject ''0xM''], Inl (ItemNotOwnedByObject ''0xM''))"
    using h [where i = "''0xM''" and r = "\<lparr>error = None, data = Some demo_owned\<rparr>" and d' = demo_owned]
      m f o by auto
  from 1 2 show ?thesis by simp
qed

text \<open>
  The claim as first stated fails: with the well-formed kiosk id \<open>0xK\<close> given, the
  purchase of the address-owned item \<open>0xM\<close> still fetches the item and fails on its
  owner record.
\<close>

theorem explicit_kiosk_counterexample:
  "isValidSuiObjectId demo_ledger ''0xK''
   \<and> purchaseItem demo_ledger ''0xM'' \<lparr>opt_target = None, opt_kiosk = Some ''0xK'', opt_env = None\<rparr>
       = ([GetObject ''0xM''], Inl (ItemNotOwnedByObject ''0xM''))"
  by (simp add: run_defs demo_defs)

subsection \<open>The order of the checks\<close>

text \<open>
  Claim C7, as amended. For a caller whose capability query answers with no capability:
  \<open>place\<close>, \<open>lock\<close>, \<open>list\<close>, \<open>delist\<close> and \<open>withdraw\<close> fail with the
  no-kiosk error after that query alone; \<open>take\<close> checks the receiver and the item id
  first and raises the no-kiosk error when both are well-formed, again after that query
  alone; \<open>purchase\<close> always fails. Once its input checks, the kiosk resolution and the
  kiosk, policy and listing reads have succeeded it fails with the no-kiosk error, having
  constructed its block and only then queried the capability; and whenever it fails with
  the no-kiosk error, all of these came before.
\<close>

theorem no_kiosk_check_order:
  assumes "isValidSuiAddress l (signer_address l)"
    and "rpc_getOwnedKiosks l (signer_address l) = Some []"
  shows "placeItem l i = ([GetOwnedKiosks (signer_address l)], Inl NoKioskForSender)
       \<and> lockItem l i = ([GetOwnedKiosks (signer_address l)], Inl NoKioskForSender)
       \<and> listItem l i amount = ([GetOwnedKiosks (signer_address l)], Inl NoKioskForSender)
       \<and> delistItem l i = ([GetOwnedKiosks (signer_address l)], Inl NoKioskForSender)
       \<and> withdrawAll l = ([GetOwnedKiosks (signer_address l)], Inl NoKioskForSender)
       \<and> takeItem l i a =
           ([GetOwnedKiosks (signer_address l)],
            Inl (if \<not> isValidSuiAddress l (or_else a (signer_address l)) then InvalidReceiverAddress
                 else if \<not> isValidSuiObjectId l i then InvalidItemId
                 else NoKioskForSender))
       \<and> (snd (purchaseItem_validate l i opts) = Inr ()
            \<and> purchaseItem_resolveKiosk l i (opt_kiosk opts) = (t1, Inr (d, kid))
            \<and> rpc_getObject l kid = Some rk \<and> found rk = Some kiosk
            \<and> rpc_getDynamicFieldObject l kid i = Some rl \<and> found rl = Some listing
            \<and> rpc_queryTransferPolicy l (otype d) = Some ps \<and> ps \<noteq> []
          \<longrightarrow> purchaseItem l i opts =
                (t1 @ [GetObject kid, QueryTransferPolicy (otype d), GetDynamicFieldObject kid i,
                       NewTransactionBlock, GetOwnedKiosks (signer_address l)],
                 Inl NoKioskForSender))
       \<and> (\<exists>t e. purchaseItem l i opts = (t, Inl e)
             \<and> (e = NoKioskForSender \<longrightarrow>
                  (\<exists>t1 d kid. purchaseItem_resolveKiosk l i (opt_kiosk opts) = (t1, Inr (d, kid))
                     \<and> t = t1 @ [GetObject kid, QueryTransferPolicy (otype d),
                                 GetDynamicFieldObject kid i, NewTransactionBlock,
                                 GetOwnedKiosks (signer_address l)])
                  \<and> (\<exists>t'. t = GetObject i # t' @ [NewTransactionBlock,
                                                   GetOwnedKiosks (signer_address l)])))"
proof -
  let ?s = "signer_address l"
  have cap: "catch_null (findKioskCap l None) = ([GetOwnedKiosks ?s], Inr None)"
    using assms by (simp add: findKioskCap_lookup)
  have cap': "catch_null (findKioskCap l (Some ?s)) = ([GetOwnedKiosks ?s], Inr None)"
    using assms by (simp add: findKioskCap_lookup)
  have 1: "placeItem l i = ([GetOwnedKiosks ?s], Inl NoKioskForSender)"
    by (simp add: placeItem_def cap bind_io_Inr throw_io_def)
  have 2: "lockItem l i = ([GetOwnedKiosks ?s], Inl NoKioskForSender)"
    by (simp add: lockItem_def cap bind_io_Inr throw_io_def)
  have 3: "listItem l i amount = ([GetOwnedKiosks ?s], Inl NoKioskForSender)"
    by (simp add: listItem_def cap bind_io_Inr throw_io_def)
  have 4: "delistItem l i = ([GetOwnedKiosks ?s], Inl NoKioskForSender)"
    by (simp add: delistItem_def cap bind_io_Inr throw_io_def)
  have 5: "withdrawAll l = ([GetOwnedKiosks ?s], Inl NoKioskForSender)"
    by (simp add: withdrawAll_def cap' bind_io_Inr throw_io_def Let_def)
  have 6: "takeItem l i a =
           ([GetOwnedKiosks ?s],
            Inl (if \<not> isValidSuiAddress l (or_else a ?s) then InvalidReceiverAddress
                 else if \<not> isValidSuiObjectId l i then InvalidItemId
                 else NoKioskForSender))"
    by (simp add: takeItem_def cap bind_io_Inr throw_io_def Let_def)
  have 7: "snd (purchaseItem_validate l i opts) = Inr ()
            \<and> purchaseItem_resolveKiosk l i (opt_kiosk opts) = (t1, Inr (d, kid))
            \<and> rpc_getObject l kid = Some rk \<and> found rk = Some kiosk
            \<and> rpc_getDynamicFieldObject l kid i = Some rl \<and> found rl = Some listing
            \<and> rpc_queryTransferPolicy l (otype d) = Some ps \<and> ps \<noteq> []
          \<longrightarrow> purchaseItem l i opts =
                (t1 @ [GetObject kid, QueryTransferPolicy (otype d), GetDynamicFieldObject kid i,
                       NewTransactionBlock, GetOwnedKiosks ?s],
                 Inl NoKioskForSender)"
  proof
    assume a: "snd (purchaseItem_validate l i opts) = Inr ()
            \<and> purchaseItem_resolveKiosk l i (opt_kiosk opts) = (t1, Inr (d, kid))
            \<and> rpc_getObject l kid = Some rk \<and> found rk = Some kiosk
            \<and> rpc_getDynamicFieldObject l kid i = Some rl \<and> found rl = Some listing
            \<and> rpc_queryTransferPolicy l (otype d) = Some ps \<and> ps \<noteq> []"
    then have f: "purchaseItem_fetch l i d kid =
           ([GetObject kid, QueryTransferPolicy (otype d), GetDynamicFieldObject kid i],
            Inr (kiosk, ps, listing))"
      by (simp add: fetch_answered [of l kid rk d ps i rl])
    from a have v: "snd (purchaseItem_validate l i opts) = Inr ()"
      and r: "purchaseItem_resolveKiosk l i (opt_kiosk opts) = (t1, Inr (d, kid))"
      by simp_all
    show "purchaseItem l i opts =
                (t1 @ [GetObject kid, QueryTransferPolicy (otype d), GetDynamicFieldObject kid i,
                       NewTransactionBlock, GetOwnedKiosks ?s],
                 Inl NoKioskForSender)"
      by (simp add: purchaseItem_reaches_assemble [OF v r f] purchaseItem_no_cap [OF assms])
  qed
  obtain t e where te: "purchaseItem l i opts = (t, Inl e)"
    and ne: "e = NoKioskForSender \<longrightarrow>
                (\<exists>t1 d kid. purchaseItem_resolveKiosk l i (opt_kiosk opts) = (t1, Inr (d, kid))
                   \<and> t = t1 @ [GetObject kid, QueryTransferPolicy (otype d),
                               GetDynamicFieldObject kid i, NewTransactionBlock,
                               GetOwnedKiosks ?s])"
    using purchaseItem_no_kiosk_reached [OF assms, of i opts] by blast
  have hd: "e = NoKioskForSender \<longrightarrow>
              (\<exists>t'. t = GetObject i # t' @ [NewTransactionBlock, GetOwnedKiosks ?s])"
  proof
    assume "e = NoKioskForSender"
    with ne obtain t1 d kid where
        r: "purchaseItem_resolveKiosk l i (opt_kiosk opts) = (t1, Inr (d, kid))"
      and t: "t = t1 @ [GetObject kid, QueryTransferPolicy (otype d),
                        GetDynamicFieldObject kid i, NewTransactionBlock, GetOwnedKiosks ?s]"
      by blast
    from r obtain t1' where "t1 = GetObject i # t1'"
      by (auto simp: purchaseItem_resolveKiosk_def io_defs
            split: option.splits sum.splits prod.splits owner.splits if_splits)
    with t have "t = GetObject i # (t1' @ [GetObject kid, QueryTransferPolicy (otype d),
                        GetDynamicFieldObject kid i]) @ [NewTransactionBlock, GetOwnedKiosks ?s]"
      by simp
    then show "\<exists>t'. t = GetObject i # t' @ [NewTransactionBlock, GetOwnedKiosks ?s]"
      by blast
  qed
  from te ne hd have 8: "\<exists>t e. purchaseItem l i opts = (t, Inl e)
             \<and> (e = NoKioskForSender \<longrightarrow>
                  (\<exists>t1 d kid. purchaseItem_resolveKiosk l i (opt_kiosk opts) = (t1, Inr (d, kid))
                     \<and> t = t1 @ [GetObject kid, QueryTransferPolicy (otype d),
                                 GetDynamicFieldObject kid i, NewTransactionBlock,
                                 GetOwnedKiosks ?s])
                  \<and> (\<exists>t'. t = GetObject i # t' @ [NewTransactionBlock, GetOwnedKiosks ?s]))"
    by blast
  from 1 2 3 4 5 6 7 8 show ?thesis
    apply -
    apply (intro conjI)
    apply assumption+
    done
qed

text \<open>The statement at the sample ledger.\<close>

theorem no_kiosk_check_order_witness:
  "placeItem no_cap_ledger ''0xM'' = ([GetOwnedKiosks ''0xA''], Inl NoKioskForSender)
   \<and> lockItem no_cap_ledger ''0xM'' = ([GetOwnedKiosks ''0xA''], Inl NoKioskForSender)
   \<and> listItem no_cap_ledger ''0xM'' ''5'' = ([GetOwnedKiosks ''0xA''], Inl NoKioskForSender)
   \<and> delistItem no_cap_ledger ''0xM'' = ([GetOwnedKiosks ''0xA''], Inl NoKioskForSender)
   \<and> withdrawAll no_cap_ledger = ([GetOwnedKiosks ''0xA''], Inl NoKioskForSender)
   \<and> takeItem no_cap_ledger ''0xM'' None = ([GetOwnedKiosks ''0xA''], Inl NoKioskForSender)
   \<and> purchaseItem no_cap_ledger ''0xI'' plain_opts
       = ([GetObject ''0xI'', GetObject ''0xW'', GetObject ''0xK'',
           QueryTransferPolicy ''0xP::nft::Nft'', GetDynamicFieldObject ''0xK'' ''0xI'',
           NewTransactionBlock, GetOwnedKiosks ''0xA''],
          Inl NoKioskForSender)"
proof -
  have a: "isValidSuiAddress no_cap_ledger (signer_address no_cap_ledger)"
    and b: "rpc_getOwnedKiosks no_cap_ledger (signer_address no_cap_ledger) = Some []"
    by (simp_all add: no_cap_ledger_def demo_ledger_def)
  have s: "signer_address no_cap_ledger = ''0xA''" "isValidSuiAddress no_cap_ledger ''0xA''"
    "isValidSuiObjectId no_cap_ledger ''0xM''"
    by (simp_all add: no_cap_ledger_def demo_ledger_def)
  have v: "snd (purchaseItem_validate no_cap_ledger ''0xI'' plain_opts) = Inr ()"
    by (rule demo_validate) (simp_all add: no_cap_ledger_def plain_opts_def)
  have r: "purchaseItem_resolveKiosk no_cap_ledger ''0xI'' (opt_kiosk plain_opts)
             = ([GetObject ''0xI'', GetObject ''0xW''], Inr (demo_item, ''0xK''))"
    by (simp add: plain_opts_def demo_resolve no_cap_ledger_def)
  have k: "rpc_getObject no_cap_ledger ''0xK'' = Some \<lparr>error = None, data = Some demo_kiosk\<rparr>"
    "rpc_getDynamicFieldObject no_cap_ledger ''0xK'' ''0xI''
       = Some \<lparr>error = None, data = Some demo_listing\<rparr>"
    "rpc_queryTransferPolicy no_cap_ledger ''0xP::nft::Nft'' = Some [royalty_policy, lock_policy]"
    by (simp_all add: no_cap_ledger_def demo_ledger_def present_def)
  have f: "found \<lparr>error = None, data = Some d\<rparr> = Some d" for d
    by (simp add: found_def)
  have t: "otype demo_item = ''0xP::nft::Nft''" by (simp add: demo_item_def)
  show ?thesis
    using no_kiosk_check_order [OF a b, where i = "''0xM''" and amount = "''5''" and a = None]
      no_kiosk_check_order [OF a b, where i = "''0xI''" and opts = plain_opts
        and ?t1.0 = "[GetObject ''0xI'', GetObject ''0xW'']" and d = demo_item and kid = "''0xK''"
        and rk = "\<lparr>error = None, data = Some demo_kiosk\<rparr>" and kiosk = demo_kiosk
        and rl = "\<lparr>error = None, data = Some demo_listing\<rparr>" and listing = demo_listing
        and ps = "[royalty_policy, lock_policy]"]
      s v r k f t
    by simp
qed

text \<open>
  The claim as first stated fails: a caller without a capability who purchases the listed
  item \<open>0xI\<close> gets the no-kiosk error after five reads and after the block was
  constructed; purchasing the missing item \<open>0xZ\<close> the caller gets the not-found error,
  and taking an item with a malformed id the invalid-item error.
\<close>

theorem no_kiosk_check_order_counterexample:
  "rpc_getOwnedKiosks no_cap_ledger (signer_address no_cap_ledger) = Some []
   \<and> purchaseItem no_cap_ledger ''0xI'' plain_opts
     = ([GetObject ''0xI'', GetObject ''0xW'', GetObject ''0xK'',
         QueryTransferPolicy ''0xP::nft::Nft'', GetDynamicFieldObject ''0xK'' ''0xI'',
         NewTransactionBlock, GetOwnedKiosks ''0xA''],
        Inl NoKioskForSender)
   \<and> purchaseItem no_cap_ledger ''0xZ'' plain_opts = ([GetObject ''0xZ''], Inl (ItemNotFound ''0xZ''))
   \<and> takeItem no_cap_ledger ''bad'' None = ([GetOwnedKiosks ''0xA''], Inl InvalidItemId)"
  by (simp add: run_defs demo_defs)

text \<open>
  Claim C8, as amended. A purchase with a malformed target (non-empty and not \<open>kiosk\<close>),
  a malformed non-empty kiosk id or a malformed item id fails with an invalid-input error
  before any call. A \<open>take\<close> with a malformed receiver or item id fails with an
  invalid-input error after the capability query. \<open>place\<close>, \<open>lock\<close>, \<open>list\<close> and
  \<open>delist\<close> with a malformed item id fail after the capability query, with the
  invalid-item error when a capability was found and with the no-kiosk error otherwise.
\<close>

theorem invalid_input_checks:
  "((truthy (opt_target opts) \<and> opt_target opts \<noteq> Some ''kiosk''
        \<and> \<not> isValidSuiAddress l (or_else (opt_target opts) []))
     \<or> (truthy (opt_kiosk opts) \<and> \<not> isValidSuiObjectId l (or_else (opt_kiosk opts) []))
     \<or> \<not> isValidSuiObjectId l i
     \<longrightarrow> (\<exists>e. purchaseItem l i opts = ([], Inl e) \<and> is_invalid_input e))
   \<and> (\<not> isValidSuiAddress l (or_else a (signer_address l)) \<or> \<not> isValidSuiObjectId l i
     \<longrightarrow> (\<exists>e. takeItem l i a = (fst (findKioskCap l None), Inl e) \<and> is_invalid_input e))
   \<and> (\<not> isValidSuiObjectId l i
     \<longrightarrow> (\<forall>r \<in> {placeItem l i, lockItem l i, listItem l i amount, delistItem l i}.
            r = (fst (findKioskCap l None),
                 Inl (if snd (catch_null (findKioskCap l None)) = Inr None
                      then NoKioskForSender else InvalidItemId))))
   \<and> set (fst (findKioskCap l None)) \<subseteq> {GetOwnedKiosks (signer_address l)}"
proof -
  obtain t c where cap: "catch_null (findKioskCap l None) = (t, Inr c)"
    using catch_null_total by blast
  then have t: "fst (findKioskCap l None) = t"
    by (simp add: findKioskCap_trace)
  have 1: "(truthy (opt_target opts) \<and> opt_target opts \<noteq> Some ''kiosk''
        \<and> \<not> isValidSuiAddress l (or_else (opt_target opts) []))
     \<or> (truthy (opt_kiosk opts) \<and> \<not> isValidSuiObjectId l (or_else (opt_kiosk opts) []))
     \<or> \<not> isValidSuiObjectId l i
     \<Longrightarrow> \<exists>e. purchaseItem l i opts = ([], Inl e) \<and> is_invalid_input e"
    by (auto simp: purchaseItem_def purchaseItem_validate_def throw_io_def bind_io_Inl)
  have 2: "\<not> isValidSuiAddress l (or_else a (signer_address l)) \<or> \<not> isValidSuiObjectId l i
     \<Longrightarrow> \<exists>e. takeItem l i a = (fst (findKioskCap l None), Inl e) \<and> is_invalid_input e"
    by (auto simp: takeItem_def cap t bind_io_Inr throw_io_def Let_def)
  have 3: "\<not> isValidSuiObjectId l i
     \<Longrightarrow> \<forall>r \<in> {placeItem l i, lockItem l i, listItem l i amount, delistItem l i}.
            r = (fst (findKioskCap l None),
                 Inl (if snd (catch_null (findKioskCap l None)) = Inr None
                      then NoKioskForSender else InvalidItemId))"
    by (cases c) (simp_all add: placeItem_def lockItem_def listItem_def delistItem_def cap t
          bind_io_Inr throw_io_def Let_def)
  have 4: "set (fst (findKioskCap l None)) \<subseteq> {GetOwnedKiosks (signer_address l)}"
    using findKioskCap_only_query [of l None] by simp
  from 1 2 3 4 show ?thesis by blast
qed

text \<open>The statement at the sample ledger.\<close>

theorem invalid_input_checks_witness:
  "purchaseItem demo_ledger ''bad'' plain_opts = ([], Inl InvalidItemId)
   \<and> takeItem demo_ledger ''bad'' None = ([GetOwnedKiosks ''0xA''], Inl InvalidItemId)
   \<and> placeItem demo_ledger ''bad'' = ([GetOwnedKiosks ''0xA''], Inl InvalidItemId)
   \<and> lockItem no_cap_ledger ''bad'' = ([GetOwnedKiosks ''0xA''], Inl NoKioskForSender)"
proof -
  have b: "\<not> isValidSuiObjectId demo_ledger ''bad''" "\<not> isValidSuiObjectId no_cap_ledger ''bad''"
    by (simp_all add: no_cap_ledger_def demo_ledger_def)
  have c: "findKioskCap demo_ledger None = ([GetOwnedKiosks ''0xA''], Inr demo_cap)"
    "findKioskCap no_cap_ledger None = ([GetOwnedKiosks ''0xA''], Inl (NoKioskFound ''0xA''))"
    by (simp_all add: findKioskCap_def io_defs Let_def no_cap_ledger_def demo_ledger_def)
  have e: "snd (purchaseItem demo_ledger ''bad'' plain_opts) = Inl InvalidItemId"
    "snd (takeItem demo_ledger ''bad'' None) = Inl InvalidItemId"
    by (simp_all add: run_defs demo_defs)
  note h = invalid_input_checks [where i = "''bad''" and opts = plain_opts and a = None
      and amount = "''5''"]
  from h [where l = demo_ledger] b e
  have 1: "purchaseItem demo_ledger ''bad'' plain_opts = ([], Inl InvalidItemId)"
    by auto
  from h [where l = demo_ledger] b c e
  have 2: "takeItem demo_ledger ''bad'' None = ([GetOwnedKiosks ''0xA''], Inl InvalidItemId)"
    by auto
  from h [where l = demo_ledger] b c
  have 3: "placeItem demo_ledger ''bad'' = ([GetOwnedKiosks ''0xA''], Inl InvalidItemId)"
    by (simp add: catch_null_def)
  from h [where l = no_cap_ledger] b c
  have 4: "lockItem no_cap_ledger ''bad'' = ([GetOwnedKiosks ''0xA''], Inl NoKioskForSender)"
    by (simp add: catch_null_def)
  from 1 2 3 4 show ?thesis by simp
qed

text \<open>
  The claim as first stated fails: \<open>place\<close> with a malformed item id queries the
  caller's capabilities before it rejects the id, and for a caller without a capability it
  fails with the no-kiosk error instead.
\<close>

theorem invalid_input_checks_counterexample:
  "\<not> isValidSuiObjectId demo_ledger ''bad''
   \<and> placeItem demo_ledger ''bad'' = ([GetOwnedKiosks ''0xA''], Inl InvalidItemId)
   \<and> placeItem no_cap_ledger ''bad'' = ([GetOwnedKiosks ''0xA''], Inl NoKioskForSender)"
  by (simp add: run_defs demo_defs)

subsection \<open>More than one capability or policy\<close>

text \<open>
  Claim C9. When the capability query answers with a non-empty list, \<open>findKioskCap\<close>
  returns its first element, without an error, and every command builds its block with
  that capability: \<open>withdraw\<close>, \<open>list\<close>, \<open>delist\<close>, \<open>take\<close>, \<open>place\<close> and
  \<open>lock\<close> name its kiosk and its reference, and \<open>purchase\<close> passes its kiosk and its
  id to rule resolution. When the policy query answers with a non-empty list, \<open>lock\<close>
  puts the id of its first element into the block and \<open>purchase\<close> passes its first
  element to rule resolution. Nothing depends on the other elements: cutting both answers
  down to their first element changes neither the calls nor the outcome of any command.
\<close>

theorem first_result_is_used:
  "(isValidSuiAddress l (or_else a (signer_address l))
      \<and> rpc_getOwnedKiosks l (or_else a (signer_address l)) = Some (c # cs)
      \<longrightarrow> findKioskCap l a = ([GetOwnedKiosks (or_else a (signer_address l))], Inr c))
   \<and> (isValidSuiAddress l (signer_address l)
      \<and> rpc_getOwnedKiosks l (signer_address l) = Some (c # cs)
      \<longrightarrow> withdrawAll l =
            ([GetOwnedKiosks (signer_address l), NewTransactionBlock],
             Inr [KioskWithdraw (TxObject (cap_kioskId c)) (capRef c),
                  TransferObjects [TxResult 0] (TxPure (signer_address l))])
        \<and> (isValidSuiObjectId l i \<and> rpc_getObject l i = Some r \<and> found r = Some d
           \<longrightarrow> listItem l i amount =
                 ([GetOwnedKiosks (signer_address l), GetObject i, NewTransactionBlock],
                  Inr [KioskList (otype d) (TxObject (cap_kioskId c)) (capRef c) i amount])
             \<and> delistItem l i =
                 ([GetOwnedKiosks (signer_address l), GetObject i, NewTransactionBlock],
                  Inr [KioskDelist (otype d) (TxObject (cap_kioskId c)) (capRef c) i])
             \<and> (isValidSuiAddress l (or_else a (signer_address l))
                \<longrightarrow> takeItem l i a =
                      ([GetOwnedKiosks (signer_address l), GetObject i, NewTransactionBlock],
                       Inr [KioskTake (otype d) (TxObject (cap_kioskId c)) (capRef c) i,
                            TransferObjects [TxResult 0]
                              (TxPure (or_else a (signer_address l)))]))
             \<and> (owner d = AddressOwner (signer_address l)
                \<longrightarrow> placeItem l i =
                      ([GetOwnedKiosks (signer_address l), GetObject i, NewTransactionBlock],
                       Inr [KioskPlace (otype d) (TxObject (cap_kioskId c)) (capRef c)
                              (dataRef d)])
                  \<and> (rpc_queryTransferPolicy l (otype d) = Some (p # ps)
                     \<longrightarrow> lockItem l i =
                           ([GetOwnedKiosks (signer_address l), GetObject i,
                             QueryTransferPolicy (otype d), NewTransactionBlock],
                            Inr [KioskLock (otype d) (TxObject (cap_kioskId c)) (capRef c)
                                   (TxObject (policy_id p)) (dataRef d)]))))
        \<and> (snd (purchaseItem_validate l i opts) = Inr ()
            \<and> purchaseItem_resolveKiosk l i (opt_kiosk opts) = (t1, Inr (d, kid))
            \<and> rpc_getObject l kid = Some rk \<and> found rk = Some kiosk
            \<and> rpc_getDynamicFieldObject l kid i = Some rl \<and> found rl = Some listing
            \<and> rpc_queryTransferPolicy l (otype d) = Some (p # ps)
           \<longrightarrow> purchaseItem l i opts =
                 (t1 @ [GetObject kid, QueryTransferPolicy (otype d),
                        GetDynamicFieldObject kid i, NewTransactionBlock,
                        GetOwnedKiosks (signer_address l)],
                  case purchaseAndResolvePolicies l
                         \<lparr>req_type = otype d, req_price = content_value listing,
                          req_kiosk = TxObject (objectId kiosk), req_itemId = objectId d,
                          req_policy = Some p,
                          req_env = (if opt_env opts = Some ''mainnet'' then Mainnet else Testnet),
                          req_ownedKiosk = cap_kioskId c,
                          req_ownedKioskCap = cap_objectId c\<rparr> of
                    None \<Rightarrow> Inl RuleResolutionFailure
                  | Some (ops, item, canTransfer) \<Rightarrow>
                      Inr (if \<not> canTransfer then ops
                           else if opt_target opts = Some ''kiosk''
                           then ops @ [KioskPlace (otype d) (RawId (cap_kioskId c))
                                         (RawId (cap_objectId c)) item]
                           else ops @ [TransferObjects [item]
                                         (TxPure (or_else (opt_target opts)
                                                    (signer_address l)))]))))
   \<and> req_policy (purchase_request opts d kiosk (p # ps) listing cap) = Some p
   \<and> purchaseItem (first_only l) i opts = purchaseItem l i opts
   \<and> lockItem (first_only l) i = lockItem l i
   \<and> placeItem (first_only l) i = placeItem l i
   \<and> takeItem (first_only l) i a = takeItem l i a
   \<and> listItem (first_only l) i amount = listItem l i amount
   \<and> delistItem (first_only l) i = delistItem l i
   \<and> withdrawAll (first_only l) = withdrawAll l"
proof -
  let ?s = "signer_address l"
  have 1: "isValidSuiAddress l (or_else a ?s)
      \<and> rpc_getOwnedKiosks l (or_else a ?s) = Some (c # cs)
      \<longrightarrow> findKioskCap l a = ([GetOwnedKiosks (or_else a ?s)], Inr c)"
    by (simp add: findKioskCap_def io_defs Let_def)
  have 2: "placeItem (first_only l) i = placeItem l i"
    by (simp add: placeItem_def first_only_cap first_only_simps getObject_def
          cong: option.case_cong if_cong)
  have 3: "takeItem (first_only l) i a = takeItem l i a"
    by (simp add: takeItem_def first_only_cap first_only_simps getObject_def
          cong: option.case_cong if_cong)
  have 4: "listItem (first_only l) i amount = listItem l i amount"
    by (simp add: listItem_def first_only_cap first_only_simps getObject_def
          cong: option.case_cong if_cong)
  have 5: "delistItem (first_only l) i = delistItem l i"
    by (simp add: delistItem_def first_only_cap first_only_simps getObject_def
          cong: option.case_cong if_cong)
  have 6: "withdrawAll (first_only l) = withdrawAll l"
    by (simp add: withdrawAll_def first_only_cap first_only_simps cong: option.case_cong)
  have 7: "req_policy (purchase_request opts d kiosk (p # ps) listing cap) = Some p"
    by (simp add: purchase_request_def)
  have 8: "isValidSuiAddress l ?s \<and> rpc_getOwnedKiosks l ?s = Some (c # cs)
      \<longrightarrow> withdrawAll l =
            ([GetOwnedKiosks ?s, NewTransactionBlock],
             Inr [KioskWithdraw (TxObject (cap_kioskId c)) (capRef c),
                  TransferObjects [TxResult 0] (TxPure ?s)])
        \<and> (isValidSuiObjectId l i \<and> rpc_getObject l i = Some r \<and> found r = Some d
           \<longrightarrow> listItem l i amount =
                 ([GetOwnedKiosks ?s, GetObject i, NewTransactionBlock],
                  Inr [KioskList (otype d) (TxObject (cap_kioskId c)) (capRef c) i amount])
             \<and> delistItem l i =
                 ([GetOwnedKiosks ?s, GetObject i, NewTransactionBlock],
                  Inr [KioskDelist (otype d) (TxObject (cap_kioskId c)) (capRef c) i])
             \<and> (isValidSuiAddress l (or_else a ?s)
                \<longrightarrow> takeItem l i a =
                      ([GetOwnedKiosks ?s, GetObject i, NewTransactionBlock],
                       Inr [KioskTake (otype d) (TxObject (cap_kioskId c)) (capRef c) i,
                            TransferObjects [TxResult 0] (TxPure (or_else a ?s))]))
             \<and> (owner d = AddressOwner ?s
                \<longrightarrow> placeItem l i =
                      ([GetOwnedKiosks ?s, GetObject i, NewTransactionBlock],
                       Inr [KioskPlace (otype d) (TxObject (cap_kioskId c)) (capRef c)
                              (dataRef d)])
                  \<and> (rpc_queryTransferPolicy l (otype d) = Some (p # ps)
                     \<longrightarrow> lockItem l i =
                           ([GetOwnedKiosks ?s, GetObject i,
                             QueryTransferPolicy (otype d), NewTransactionBlock],
                            Inr [KioskLock (otype d) (TxObject (cap_kioskId c)) (capRef c)
                                   (TxObject (policy_id p)) (dataRef d)]))))
        \<and> (snd (purchaseItem_validate l i opts) = Inr ()
            \<and> purchaseItem_resolveKiosk l i (opt_kiosk opts) = (t1, Inr (d, kid))
            \<and> rpc_getObject l kid = Some rk \<and> found rk = Some kiosk
            \<and> rpc_getDynamicFieldObject l kid i = Some rl \<and> found rl = Some listing
            \<and> rpc_queryTransferPolicy l (otype d) = Some (p # ps)
           \<longrightarrow> purchaseItem l i opts =
                 (t1 @ [GetObject kid, QueryTransferPolicy (otype d),
                        GetDynamicFieldObject kid i, NewTransactionBlock,
                        GetOwnedKiosks ?s],
                  case purchaseAndResolvePolicies l
                         \<lparr>req_type = otype d, req_price = content_value listing,
                          req_kiosk = TxObject (objectId kiosk), req_itemId = objectId d,
                          req_policy = Some p,
                          req_env = (if opt_env opts = Some ''mainnet'' then Mainnet else Testnet),
                          req_ownedKiosk = cap_kioskId c,
                          req_ownedKioskCap = cap_objectId c\<rparr> of
                    None \<Rightarrow> Inl RuleResolutionFailure
                  | Some (ops, item, canTransfer) \<Rightarrow>
                      Inr (if \<not> canTransfer then ops
                           else if opt_target opts = Some ''kiosk''
                           then ops @ [KioskPlace (otype d) (RawId (cap_kioskId c))
                                         (RawId (cap_objectId c)) item]
                           else ops @ [TransferObjects [item]
                                         (TxPure (or_else (opt_target opts) ?s))])))"
  proof
    assume h: "isValidSuiAddress l ?s \<and> rpc_getOwnedKiosks l ?s = Some (c # cs)"
    then have cap: "catch_null (findKioskCap l None) = ([GetOwnedKiosks ?s], Inr (Some c))"
      and cap': "catch_null (findKioskCap l (Some ?s)) = ([GetOwnedKiosks ?s], Inr (Some c))"
      by (simp_all add: findKioskCap_lookup)
    have w: "withdrawAll l =
            ([GetOwnedKiosks ?s, NewTransactionBlock],
             Inr [KioskWithdraw (TxObject (cap_kioskId c)) (capRef c),
                  TransferObjects [TxResult 0] (TxPure ?s)])"
      by (simp add: withdrawAll_def Let_def cap' bind_io_Inr newTransactionBlock_def return_io_def)
    have it: "isValidSuiObjectId l i \<and> rpc_getObject l i = Some r \<and> found r = Some d
           \<longrightarrow> listItem l i amount =
                 ([GetOwnedKiosks ?s, GetObject i, NewTransactionBlock],
                  Inr [KioskList (otype d) (TxObject (cap_kioskId c)) (capRef c) i amount])
             \<and> delistItem l i =
                 ([GetOwnedKiosks ?s, GetObject i, NewTransactionBlock],
                  Inr [KioskDelist (otype d) (TxObject (cap_kioskId c)) (capRef c) i])
             \<and> (isValidSuiAddress l (or_else a ?s)
                \<longrightarrow> takeItem l i a =
                      ([GetOwnedKiosks ?s, GetObject i, NewTransactionBlock],
                       Inr [KioskTake (otype d) (TxObject (cap_kioskId c)) (capRef c) i,
                            TransferObjects [TxResult 0] (TxPure (or_else a ?s))]))
             \<and> (owner d = AddressOwner ?s
                \<longrightarrow> placeItem l i =
                      ([GetOwnedKiosks ?s, GetObject i, NewTransactionBlock],
                       Inr [KioskPlace (otype d) (TxObject (cap_kioskId c)) (capRef c)
                              (dataRef d)])
                  \<and> (rpc_queryTransferPolicy l (otype d) = Some (p # ps)
                     \<longrightarrow> lockItem l i =
                           ([GetOwnedKiosks ?s, GetObject i,
                             QueryTransferPolicy (otype d), NewTransactionBlock],
                            Inr [KioskLock (otype d) (TxObject (cap_kioskId c)) (capRef c)
                                   (TxObject (policy_id p)) (dataRef d)])))"
      by (simp add: listItem_def delistItem_def takeItem_def placeItem_def lockItem_def Let_def
            cap bind_io_Inr getObject_def queryTransferPolicy_def await_def
            newTransactionBlock_def return_io_def)
    have pu: "snd (purchaseItem_validate l i opts) = Inr ()
            \<and> purchaseItem_resolveKiosk l i (opt_kiosk opts) = (t1, Inr (d, kid))
            \<and> rpc_getObject l kid = Some rk \<and> found rk = Some kiosk
            \<and> rpc_getDynamicFieldObject l kid i = Some rl \<and> found rl = Some listing
            \<and> rpc_queryTransferPolicy l (otype d) = Some (p # ps)
           \<longrightarrow> purchaseItem l i opts =
                 (t1 @ [GetObject kid, QueryTransferPolicy (otype d),
                        GetDynamicFieldObject kid i, NewTransactionBlock,
                        GetOwnedKiosks ?s],
                  case purchaseAndResolvePolicies l
                         \<lparr>req_type = otype d, req_price = content_value listing,
                          req_kiosk = TxObject (objectId kiosk), req_itemId = objectId d,
                          req_policy = Some p,
                          req_env = (if opt_env opts = Some ''mainnet'' then Mainnet else Testnet),
                          req_ownedKiosk = cap_kioskId c,
                          req_ownedKioskCap = cap_objectId c\<rparr> of
                    None \<Rightarrow> Inl RuleResolutionFailure
                  | Some (ops, item, canTransfer) \<Rightarrow>
                      Inr (if \<not> canTransfer then ops
                           else if opt_target opts = Some ''kiosk''
                           then ops @ [KioskPlace (otype d) (RawId (cap_kioskId c))
                                         (RawId (cap_objectId c)) item]
                           else ops @ [TransferObjects [item]
                                         (TxPure (or_else (opt_target opts) ?s))]))"
    proof
      assume b: "snd (purchaseItem_validate l i opts) = Inr ()
            \<and> purchaseItem_resolveKiosk l i (opt_kiosk opts) = (t1, Inr (d, kid))
            \<and> rpc_getObject l kid = Some rk \<and> found rk = Some kiosk
            \<and> rpc_getDynamicFieldObject l kid i = Some rl \<and> found rl = Some listing
            \<and> rpc_queryTransferPolicy l (otype d) = Some (p # ps)"
      then have f: "purchaseItem_fetch l i d kid =
           ([GetObject kid, QueryTransferPolicy (otype d), GetDynamicFieldObject kid i],
            Inr (kiosk, p # ps, listing))"
        by (simp add: fetch_answered [of l kid rk d "p # ps" i rl])
      from b have v: "snd (purchaseItem_validate l i opts) = Inr ()"
        and r: "purchaseItem_resolveKiosk l i (opt_kiosk opts) = (t1, Inr (d, kid))"
        by simp_all
      have q: "purchase_request opts d kiosk (p # ps) listing c =
                 \<lparr>req_type = otype d, req_price = content_value listing,
                  req_kiosk = TxObject (objectId kiosk), req_itemId = objectId d,
                  req_policy = Some p,
                  req_env = (if opt_env opts = Some ''mainnet'' then Mainnet else Testnet),
                  req_ownedKiosk = cap_kioskId c,
                  req_ownedKioskCap = cap_objectId c\<rparr>"
        by (auto simp: purchase_request_def)
      show "purchaseItem l i opts =
                 (t1 @ [GetObject kid, QueryTransferPolicy (otype d),
                        GetDynamicFieldObject kid i, NewTransactionBlock,
                        GetOwnedKiosks ?s],
                  case purchaseAndResolvePolicies l
                         \<lparr>req_type = otype d, req_price = content_value listing,
                          req_kiosk = TxObject (objectId kiosk), req_itemId = objectId d,
                          req_policy = Some p,
                          req_env = (if opt_env opts = Some ''mainnet'' then Mainnet else Testnet),
                          req_ownedKiosk = cap_kioskId c,
                          req_ownedKioskCap = cap_objectId c\<rparr> of
                    None \<Rightarrow> Inl RuleResolutionFailure
                  | Some (ops, item, canTransfer) \<Rightarrow>
                      Inr (if \<not> canTransfer then ops
                           else if opt_target opts = Some ''kiosk''
                           then ops @ [KioskPlace (otype d) (RawId (cap_kioskId c))
                                         (RawId (cap_objectId c)) item]
                           else ops @ [TransferObjects [item]
                                         (TxPure (or_else (opt_target opts) ?s))]))"
        unfolding purchaseItem_reaches_assemble [OF v r f] q [symmetric]
        by (simp add: purchaseItem_assemble_def cap bind_io_Inr newTransactionBlock_def
              return_io_def throw_io_def Let_def split: option.splits prod.splits)
    qed
    from w it pu show "withdrawAll l =
            ([GetOwnedKiosks ?s, NewTransactionBlock],
             Inr [KioskWithdraw (TxObject (cap_kioskId c)) (capRef c),
                  TransferObjects [TxResult 0] (TxPure ?s)])
        \<and> (isValidSuiObjectId l i \<and> rpc_getObject l i = Some r \<and> found r = Some d
           \<longrightarrow> listItem l i amount =
                 ([GetOwnedKiosks ?s, GetObject i, NewTransactionBlock],
                  Inr [KioskList (otype d) (TxObject (cap_kioskId c)) (capRef c) i amount])
             \<and> delistItem l i =
                 ([GetOwnedKiosks ?s, GetObject i, NewTransactionBlock],
                  Inr [KioskDelist (otype d) (TxObject (cap_kioskId c)) (capRef c) i])
             \<and> (isValidSuiAddress l (or_else a ?s)
                \<longrightarrow> takeItem l i a =
                      ([GetOwnedKiosks ?s, GetObject i, NewTransactionBlock],
                       Inr [KioskTake (otype d) (TxObject (cap_kioskId c)) (capRef c) i,
                            TransferObjects [TxResult 0] (TxPure (or_else a ?s))]))
             \<and> (owner d = AddressOwner ?s
                \<longrightarrow> placeItem l i =
                      ([GetOwnedKiosks ?s, GetObject i, NewTransactionBlock],
                       Inr [KioskPlace (otype d) (TxObject (cap_kioskId c)) (capRef c)
                              (dataRef d)])
                  \<and> (rpc_queryTransferPolicy l (otype d) = Some (p # ps)
                     \<longrightarrow> lockItem l i =
                           ([GetOwnedKiosks ?s, GetObject i,
                             QueryTransferPolicy (otype d), NewTransactionBlock],
                            Inr [KioskLock (otype d) (TxObject (cap_kioskId c)) (capRef c)
                                   (TxObject (policy_id p)) (dataRef d)]))))
        \<and> (snd (purchaseItem_validate l i opts) = Inr ()
            \<and> purchaseItem_resolveKiosk l i (opt_kiosk opts) = (t1, Inr (d, kid))
            \<and> rpc_getObject l kid = Some rk \<and> found rk = Some kiosk
            \<and> rpc_getDynamicFieldObject l kid i = Some rl \<and> found rl = Some listing
            \<and> rpc_queryTransferPolicy l (otype d) = Some (p # ps)
           \<longrightarrow> purchaseItem l i opts =
                 (t1 @ [GetObject kid, QueryTransferPolicy (otype d),
                        GetDynamicFieldObject kid i, NewTransactionBlock,
                        GetOwnedKiosks ?s],
                  case purchaseAndResolvePolicies l
                         \<lparr>req_type = otype d, req_price = content_value listing,
                          req_kiosk = TxObject (objectId kiosk), req_itemId = objectId d,
                          req_policy = Some p,
                          req_env = (if opt_env opts = Some ''mainnet'' then Mainnet else Testnet),
                          req_ownedKiosk = cap_kioskId c,
                          req_ownedKioskCap = cap_objectId c\<rparr> of
                    None \<Rightarrow> Inl RuleResolutionFailure
                  | Some (ops, item, canTransfer) \<Rightarrow>
                      Inr (if \<not> canTransfer then ops
                           else if opt_target opts = Some ''kiosk''
                           then ops @ [KioskPlace (otype d) (RawId (cap_kioskId c))
                                         (RawId (cap_objectId c)) item]
                           else ops @ [TransferObjects [item]
                                         (TxPure (or_else (opt_target opts) ?s))])))"
      apply -
      apply (intro conjI)
      apply assumption+
      done
  qed
  from 1 8 7 first_only_purchase [of l i opts] first_only_lock [of l i] 2 3 4 5 6 show ?thesis
    apply -
    apply (intro conjI)
    apply assumption+
    done
qed

text \<open>The statement at the sample ledger.\<close>

theorem first_result_is_used_witness:
  "findKioskCap demo_ledger None = ([GetOwnedKiosks ''0xA''], Inr demo_cap)
   \<and> rpc_getOwnedKiosks demo_ledger ''0xA'' = Some [demo_cap, demo_cap2]
   \<and> rpc_queryTransferPolicy demo_ledger ''0xP::nft::Nft'' = Some [royalty_policy, lock_policy]
   \<and> lockItem demo_ledger ''0xM''
       = ([GetOwnedKiosks ''0xA'', GetObject ''0xM'', QueryTransferPolicy ''0xP::nft::Nft'',
           NewTransactionBlock],
          Inr [KioskLock ''0xP::nft::Nft'' (TxObject ''0xH'') (TxObjectRef ''0xC'' ''2'' ''dC'')
                 (TxObject ''0xT'') (TxObjectRef ''0xM'' ''3'' ''dM'')])
   \<and> placeItem demo_ledger ''0xM''
       = ([GetOwnedKiosks ''0xA'', GetObject ''0xM'', NewTransactionBlock],
          Inr [KioskPlace ''0xP::nft::Nft'' (TxObject ''0xH'') (TxObjectRef ''0xC'' ''2'' ''dC'')
                 (TxObjectRef ''0xM'' ''3'' ''dM'')])
   \<and> withdrawAll demo_ledger
       = ([GetOwnedKiosks ''0xA'', NewTransactionBlock],
          Inr [KioskWithdraw (TxObject ''0xH'') (TxObjectRef ''0xC'' ''2'' ''dC''),
               TransferObjects [TxResult 0] (TxPure ''0xA'')])
   \<and> purchaseItem demo_ledger ''0xI'' plain_opts
       = ([GetObject ''0xI'', GetObject ''0xW'', GetObject ''0xK'',
           QueryTransferPolicy ''0xP::nft::Nft'', GetDynamicFieldObject ''0xK'' ''0xI'',
           NewTransactionBlock, GetOwnedKiosks ''0xA''],
          Inr [MoveCall ''kiosk::purchase'' [TxObject ''0xK'', RawId ''0xI'', TxPure ''1000''],
               MoveCall ''royalty_rule::confirm'' [TxObject ''0xT'', TxResult 0, TxPure ''1000''],
               TransferObjects [TxResult 0] (TxPure ''0xA'')])
   \<and> purchaseItem (first_only demo_ledger) ''0xI'' plain_opts
       = purchaseItem demo_ledger ''0xI'' plain_opts
   \<and> lockItem (first_only demo_ledger) ''0xM'' = lockItem demo_ledger ''0xM''"
proof -
  have s: "signer_address demo_ledger = ''0xA''" "or_else None ''0xA'' = ''0xA''"
    "isValidSuiAddress demo_ledger ''0xA''" "isValidSuiObjectId demo_ledger ''0xM''"
    "rpc_getOwnedKiosks demo_ledger ''0xA'' = Some (demo_cap # [demo_cap2])"
    "rpc_queryTransferPolicy demo_ledger ''0xP::nft::Nft'' = Some (royalty_policy # [lock_policy])"
    by (simp_all add: demo_ledger_def)
  have o: "rpc_getObject demo_ledger ''0xM'' = Some \<lparr>error = None, data = Some demo_owned\<rparr>"
    "rpc_getObject demo_ledger ''0xK'' = Some \<lparr>error = None, data = Some demo_kiosk\<rparr>"
    "rpc_getDynamicFieldObject demo_ledger ''0xK'' ''0xI''
       = Some \<lparr>error = None, data = Some demo_listing\<rparr>"
    by (simp_all add: demo_ledger_def present_def)
  have f: "found \<lparr>error = None, data = Some d\<rparr> = Some d" for d
    by (simp add: found_def)
  have d: "owner demo_owned = AddressOwner ''0xA''" "otype demo_owned = ''0xP::nft::Nft''"
    "otype demo_item = ''0xP::nft::Nft''" "dataRef demo_owned = TxObjectRef ''0xM'' ''3'' ''dM''"
    "capRef demo_cap = TxObjectRef ''0xC'' ''2'' ''dC''" "cap_kioskId demo_cap = ''0xH''"
    "cap_objectId demo_cap = ''0xC''" "policy_id royalty_policy = ''0xT''"
    "content_value demo_listing = ''1000''" "objectId demo_kiosk = ''0xK''"
    "objectId demo_item = ''0xI''" "opt_env plain_opts = None" "opt_target plain_opts = None"
    by (simp_all add: demo_owned_def demo_item_def demo_cap_def royalty_policy_def
          demo_listing_def demo_kiosk_def plain_opts_def dataRef_def capRef_def)
  have v: "snd (purchaseItem_validate demo_ledger ''0xI'' plain_opts) = Inr ()"
    by (rule demo_validate) (simp_all add: plain_opts_def)
  have r: "purchaseItem_resolveKiosk demo_ledger ''0xI'' (opt_kiosk plain_opts)
             = ([GetObject ''0xI'', GetObject ''0xW''], Inr (demo_item, ''0xK''))"
    by (simp add: plain_opts_def demo_resolve)
  have q: "purchaseAndResolvePolicies demo_ledger
             \<lparr>req_type = ''0xP::nft::Nft'', req_price = ''1000'', req_kiosk = TxObject ''0xK'',
              req_itemId = ''0xI'', req_policy = Some royalty_policy, req_env = Testnet,
              req_ownedKiosk = ''0xH'', req_ownedKioskCap = ''0xC''\<rparr>
           = Some ([MoveCall ''kiosk::purchase'' [TxObject ''0xK'', RawId ''0xI'', TxPure ''1000''],
                    MoveCall ''royalty_rule::confirm'' [TxObject ''0xT'', TxResult 0, TxPure ''1000'']],
                   TxResult 0, True)"
    by (simp add: demo_ledger_def rule_defs demo_rules_def royalty_policy_def)
  note h = first_result_is_used [where l = demo_ledger and a = None and c = demo_cap
      and cs = "[demo_cap2]" and p = royalty_policy and ps = "[lock_policy]"]
  have 1: "findKioskCap demo_ledger None = ([GetOwnedKiosks ''0xA''], Inr demo_cap)"
    using h s by simp
  have 2: "lockItem demo_ledger ''0xM''
       = ([GetOwnedKiosks ''0xA'', GetObject ''0xM'', QueryTransferPolicy ''0xP::nft::Nft'',
           NewTransactionBlock],
          Inr [KioskLock ''0xP::nft::Nft'' (TxObject ''0xH'') (TxObjectRef ''0xC'' ''2'' ''dC'')
                 (TxObject ''0xT'') (TxObjectRef ''0xM'' ''3'' ''dM'')])"
    and 3: "placeItem demo_ledger ''0xM''
       = ([GetOwnedKiosks ''0xA'', GetObject ''0xM'', NewTransactionBlock],
          Inr [KioskPlace ''0xP::nft::Nft'' (TxObject ''0xH'') (TxObjectRef ''0xC'' ''2'' ''dC'')
                 (TxObjectRef ''0xM'' ''3'' ''dM'')])"
    and 4: "withdrawAll demo_ledger
       = ([GetOwnedKiosks ''0xA'', NewTransactionBlock],
          Inr [KioskWithdraw (TxObject ''0xH'') (TxObjectRef ''0xC'' ''2'' ''dC''),
               TransferObjects [TxResult 0] (TxPure ''0xA'')])"
    and 6: "lockItem (first_only demo_ledger) ''0xM'' = lockItem demo_ledger ''0xM''"
    using h [where i = "''0xM''" and r = "\<lparr>error = None, data = Some demo_owned\<rparr>"
               and d = demo_owned] s o f d
    by simp_all
  have 5: "purchaseItem demo_ledger ''0xI'' plain_opts
       = ([GetObject ''0xI'', GetObject ''0xW'', GetObject ''0xK'',
           QueryTransferPolicy ''0xP::nft::Nft'', GetDynamicFieldObject ''0xK'' ''0xI'',
           NewTransactionBlock, GetOwnedKiosks ''0xA''],
          Inr [MoveCall ''kiosk::purchase'' [TxObject ''0xK'', RawId ''0xI'', TxPure ''1000''],
               MoveCall ''royalty_rule::confirm'' [TxObject ''0xT'', TxResult 0, TxPure ''1000''],
               TransferObjects [TxResult 0] (TxPure ''0xA'')])"
    and 7: "purchaseItem (first_only demo_ledger) ''0xI'' plain_opts
       = purchaseItem demo_ledger ''0xI'' plain_opts"
    using h [where i = "''0xI''" and opts = plain_opts and d = demo_item and kid = "''0xK''"
               and ?t1.0 = "[GetObject ''0xI'', GetObject ''0xW'']"
               and rk = "\<lparr>error = None, data = Some demo_kiosk\<rparr>" and kiosk = demo_kiosk
               and rl = "\<lparr>error = None, data = Some demo_listing\<rparr>" and listing = demo_listing]
      s o f d v r q
    by simp_all
  from 1 2 3 4 5 6 7 s show ?thesis by simp
qed

subsection \<open>Command \<open>new\<close>\<close>




end
